theory Spec2Isabelle
  imports Complex_Main "HOL-Library.Word" "HOL-Library.AList" "HOL-Library.Log_Nat"
    "HOL-Library.Code_Target_Nat"
begin

unbundle bit_operations_syntax

section \<open>The simulation engine of cardata\_mock (src/simulation.ts)\<close>

text \<open>
  Conventions of the embedding.
  \<^item> A JavaScript number that the engine computes from its seed is a rational (\<open>rat\<close>),
    and arithmetic on it is exact where the source rounds to a double; where the source
    makes the number an integer (\<open>Math.floor\<close>, \<open>Math.round\<close>, a counter) it is an
    \<open>int\<close> or a \<open>nat\<close>. \<open>Math.floor x\<close> is \<open>\<lfloor>x\<rfloor>\<close> and \<open>Math.round x\<close> is \<open>\<lfloor>x + 1/2\<rfloor>\<close> (ties
    go up). A decimal literal is the fraction it denotes (\<open>1.2\<close> is \<open>6/5\<close>).
  \<^item> A number that a caller passes, and every number computed from one, is a \<open>jsnum\<close>:
    a rational, \<open>NaN\<close> or one of the two infinities. These are the numbers of an event,
    the sums of the accumulator, the confidence, the count and the temperature of a
    cell, the long-term statistics, the counts of a distribution and the entries of a
    bounding box.
  \<^item> The 32-bit operations (\<open>^\<close>, \<open>|\<close>, \<open>>>>\<close>, \<open>Math.imul\<close>) work on \<open>32 word\<close>; both
    generators are bit for bit those of the source.
  \<^item> A \<open>Map\<close> is an association list in insertion order: \<open>get\<close> is \<open>map_of\<close>,
    \<open>set\<close> is \<open>AList.update\<close> (replace in place, or append), \<open>clear\<close> gives \<open>[]\<close>. The
    keys of a \<open>Map\<close> are distinct; the operations keep them so. A returned \<open>Record\<close> is
    an association list as well.
  \<^item> The functions of \<open>Math\<close>, the h3-js library, \<open>Date.now()\<close> and
    \<open>crypto.randomUUID()\<close> are parameters. A time is its number of milliseconds since
    the epoch, an \<open>int\<close>; an ISO string made by \<open>new Date(t).toISOString()\<close> is
    represented by the time value \<open>t\<close>. What \<open>Date.now()\<close> returns is a time value, and
    so is a time some hundred days before it; \<open>new Date(x).toISOString()\<close> for a number
    \<open>x\<close> of an event throws a \<open>RangeError\<close> when \<open>x\<close> is not one.
  \<^item> A call that can throw returns a sum, \<open>Inl\<close> with the error; the engine is then as
    it was before the call.
  \<^item> \<open>structuredClone\<close> is the identity: values of HOL are immutable.
\<close>

subsection \<open>Types (types.ts)\<close>

type_synonym H3Index = string

datatype RainIntensity = NONE | LOW | MEDIUM | HIGH | RAIN_UNRECOGNIZED

datatype RoadCondition =
  DRY | WET | SLIPPERY | SLIPPERY_ICE | SLIPPERY_WET | ROAD_UNRECOGNIZED

text \<open>
  A number of JavaScript that need not be finite. There is no negative zero, and a
  finite result is never rounded and never overflows.
\<close>

datatype jsnum = Num rat | NaN | Infinity | MinusInfinity

record CellMetadata =
  confidence :: jsnum
  total_count :: jsnum

record CellConditions =
  rain_intensity :: RainIntensity
  road_condition :: RoadCondition
  fog :: bool
  cross_wind :: bool

record CellEnvironment =
  temperature :: jsnum
  is_night :: bool
  conditions :: CellConditions

record Cell =
  h3_index :: H3Index
  timeframe_last :: int
  metadata :: CellMetadata
  environment :: CellEnvironment

record TemperatureExtreme =
  ext_value :: jsnum
  ext_timestamp :: int

record CellStatistics =
  lowest :: "TemperatureExtreme option"
  highest :: "TemperatureExtreme option"
  rain_low :: jsnum
  rain_medium :: jsnum
  rain_high :: jsnum
  days_slippery_road :: jsnum
  days_fog :: jsnum
  days_cross_wind :: jsnum

record HotspotLocation =
  latitude :: rat
  longitude :: rat
  std_dev :: rat

record HotspotRisk =
  risk_type :: string
  importance :: int
  risk_confidence :: int
  residual_confidence :: int

record HotspotMetadata =
  hs_id :: string
  risk :: HotspotRisk
  hs_total_count :: int
  weather_impact :: int
  time_of_day_impact :: int

record Presence =
  is_present :: bool
  cond_count :: int

record HotspotConditions =
  dry_road :: Presence
  wet_road :: Presence
  rain :: Presence
  slippery_road :: Presence
  hs_fog :: Presence
  crosswind :: Presence

record AvgStdDev =
  avg :: rat
  dev :: rat

record HotspotEnvironment =
  air_temperature :: AvgStdDev
  sun_position :: AvgStdDev
  hs_conditions :: HotspotConditions

record Distribution =
  by_week :: "(int \<times> jsnum) list"
  by_day :: "(string \<times> jsnum) list"
  by_time :: "(string \<times> jsnum) list"

record RiskHotspot =
  hs_location :: HotspotLocation
  hs_metadata :: HotspotMetadata
  timeframe_first :: int
  hs_timeframe_last :: int
  heading :: AvgStdDev
  hs_environment :: HotspotEnvironment
  statistics :: Distribution

record CellLocation =
  loc_lat :: rat
  loc_lng :: rat
  loc_h3 :: H3Index

text \<open>The value type of \<open>#rawAgg\<close>.\<close>

record RawAgg =
  sumTemp :: jsnum
  count :: nat
  lastTs :: jsnum
  sumConfidence :: jsnum
  sumCounts :: jsnum
  fogVotes :: nat
  crossWindVotes :: nat
  rainScore :: nat
  roadScore :: nat

text \<open>
  The event argument of \<open>pushRawEvent\<close>; an optional field is an \<open>option\<close>. Its numbers
  are any numbers: the method checks none of them.
\<close>

record RawEvent =
  ev_temperature :: jsnum
  ev_confidence :: "jsnum option"
  ev_count :: "jsnum option"
  ev_fog :: "bool option"
  ev_cross_wind :: "bool option"
  ev_rain_intensity :: "RainIntensity option"
  ev_road_condition :: "RoadCondition option"
  ev_timestamp :: "jsnum option"

text \<open>The fields of the class; the two timer ids are the handles of \<open>setInterval\<close>.\<close>

record Simulation =
  targetCellCount :: nat
  targetHotspotCount :: nat
  snapshotIntervalMs :: nat
  resolution :: nat
  seed :: "32 word"
  rngState :: "32 word"
  rawAgg :: "(H3Index \<times> RawAgg) list"
  snapshot :: "(H3Index \<times> Cell) list"
  hotspots :: "(string \<times> RiskHotspot) list"
  stats :: "(H3Index \<times> CellStatistics) list"
  rawTimerId :: "nat option"
  snapshotTimerId :: "nat option"
  cellLocations :: "CellLocation list"

subsection \<open>Numbers\<close>

definition Math_floor :: "rat \<Rightarrow> int" where
  "Math_floor x = \<lfloor>x\<rfloor>"

definition Math_round :: "rat \<Rightarrow> int" where
  "Math_round x = \<lfloor>x + 1 / 2\<rfloor>"

text \<open>
  Arithmetic and comparison on \<open>jsnum\<close>, as IEEE 754 has them: \<open>NaN\<close> spreads through
  every operation and fails every comparison, and so do \<open>Infinity - Infinity\<close>,
  \<open>0 * Infinity\<close>, \<open>0 / 0\<close> and \<open>Infinity / Infinity\<close>.
\<close>

fun js_neg :: "jsnum \<Rightarrow> jsnum" where
  "js_neg (Num a) = Num (- a)"
| "js_neg NaN = NaN"
| "js_neg Infinity = MinusInfinity"
| "js_neg MinusInfinity = Infinity"

fun js_add :: "jsnum \<Rightarrow> jsnum \<Rightarrow> jsnum" where
  "js_add (Num a) (Num b) = Num (a + b)"
| "js_add NaN _ = NaN"
| "js_add _ NaN = NaN"
| "js_add Infinity MinusInfinity = NaN"
| "js_add MinusInfinity Infinity = NaN"
| "js_add Infinity _ = Infinity"
| "js_add _ Infinity = Infinity"
| "js_add MinusInfinity _ = MinusInfinity"
| "js_add _ MinusInfinity = MinusInfinity"

definition js_sub :: "jsnum \<Rightarrow> jsnum \<Rightarrow> jsnum" where
  "js_sub x y = js_add x (js_neg y)"

fun js_negative :: "jsnum \<Rightarrow> bool" where
  "js_negative (Num a) = (a < 0)"
| "js_negative MinusInfinity = True"
| "js_negative _ = False"

fun js_mul :: "jsnum \<Rightarrow> jsnum \<Rightarrow> jsnum" where
  "js_mul (Num a) (Num b) = Num (a * b)"
| "js_mul x y =
    (if x = NaN \<or> y = NaN \<or> x = Num 0 \<or> y = Num 0 then NaN
     else if js_negative x = js_negative y then Infinity else MinusInfinity)"

fun js_div :: "jsnum \<Rightarrow> jsnum \<Rightarrow> jsnum" where
  "js_div (Num a) (Num b) =
    (if b \<noteq> 0 then Num (a / b)
     else if a = 0 then NaN else if 0 < a then Infinity else MinusInfinity)"
| "js_div (Num a) Infinity = Num 0"
| "js_div (Num a) MinusInfinity = Num 0"
| "js_div Infinity (Num b) = (if 0 \<le> b then Infinity else MinusInfinity)"
| "js_div MinusInfinity (Num b) = (if 0 \<le> b then MinusInfinity else Infinity)"
| "js_div _ _ = NaN"

fun js_le :: "jsnum \<Rightarrow> jsnum \<Rightarrow> bool" where
  "js_le (Num a) (Num b) = (a \<le> b)"
| "js_le NaN _ = False"
| "js_le _ NaN = False"
| "js_le MinusInfinity _ = True"
| "js_le _ Infinity = True"
| "js_le _ _ = False"

fun js_ge :: "jsnum \<Rightarrow> jsnum \<Rightarrow> bool" where
  "js_ge (Num a) (Num b) = (a \<ge> b)"
| "js_ge NaN _ = False"
| "js_ge _ NaN = False"
| "js_ge _ MinusInfinity = True"
| "js_ge Infinity _ = True"
| "js_ge _ _ = False"

fun js_lt :: "jsnum \<Rightarrow> jsnum \<Rightarrow> bool" where
  "js_lt (Num a) (Num b) = (a < b)"
| "js_lt NaN _ = False"
| "js_lt _ NaN = False"
| "js_lt Infinity _ = False"
| "js_lt _ MinusInfinity = False"
| "js_lt _ _ = True"

text \<open>\<open>Math.max\<close>, \<open>Math.min\<close> and \<open>Math.round\<close> on any numbers.\<close>

definition js_max :: "jsnum \<Rightarrow> jsnum \<Rightarrow> jsnum" where
  "js_max x y = (if x = NaN \<or> y = NaN then NaN else if js_le x y then y else x)"

definition js_min :: "jsnum \<Rightarrow> jsnum \<Rightarrow> jsnum" where
  "js_min x y = (if x = NaN \<or> y = NaN then NaN else if js_le x y then x else y)"

fun js_round :: "jsnum \<Rightarrow> jsnum" where
  "js_round (Num x) = Num (rat_of_int (Math_round x))"
| "js_round x = x"

text \<open>The numbers that count as false in \<open>x || y\<close>.\<close>

definition falsy :: "jsnum \<Rightarrow> bool" where
  "falsy x \<longleftrightarrow> x = Num 0 \<or> x = NaN"

text \<open>
  What a call can throw: the two \<open>Error\<close>s that the source raises itself, the
  \<open>TypeError\<close> of reading a property of \<open>undefined\<close>, and the \<open>RangeError\<close> of
  \<open>toISOString\<close> on an invalid date.
\<close>

datatype error = InvalidBoundingBox | H3Failed | TypeError | RangeError

text \<open>
  \<open>new Date(x).toISOString()\<close> for a number \<open>x\<close>: the time value of the date is \<open>x\<close>
  without its fraction when \<open>x\<close> is finite and at most \<open>8.64e15\<close> in magnitude; the date
  is invalid otherwise, and \<open>toISOString\<close> throws.
\<close>

definition toISOString :: "jsnum \<Rightarrow> error + int" where
  "toISOString x =
    (case x of
       Num a \<Rightarrow>
         (if \<bar>a\<bar> \<le> 8640000000000000 then Inr (if 0 \<le> a then \<lfloor>a\<rfloor> else \<lceil>a\<rceil>)
          else Inl RangeError)
     | _ \<Rightarrow> Inl RangeError)"

text \<open>\<open>new Date(t).getUTCHours()\<close> for a time value \<open>t\<close> in milliseconds.\<close>

definition getUTCHours :: "int \<Rightarrow> int" where
  "getUTCHours t = (t div 3600000) mod 24"

subsection \<open>Scores\<close>

fun rainIntensityToScore :: "RainIntensity \<Rightarrow> nat" where
  "rainIntensityToScore NONE = 0"
| "rainIntensityToScore LOW = 1"
| "rainIntensityToScore MEDIUM = 2"
| "rainIntensityToScore HIGH = 4"
| "rainIntensityToScore RAIN_UNRECOGNIZED = 0"

fun roadConditionToScore :: "RoadCondition \<Rightarrow> nat" where
  "roadConditionToScore DRY = 0"
| "roadConditionToScore WET = 1"
| "roadConditionToScore SLIPPERY = 2"
| "roadConditionToScore SLIPPERY_ICE = 3"
| "roadConditionToScore SLIPPERY_WET = 2"
| "roadConditionToScore ROAD_UNRECOGNIZED = 0"

subsection \<open>The constructor\<close>

record SimulationOptions =
  opt_targetCellCount :: "nat option"
  opt_targetHotspotCount :: "nat option"
  opt_snapshotIntervalMs :: "nat option"
  opt_seed :: "int option"
  opt_resolution :: "nat option"

definition noOptions :: SimulationOptions where
  "noOptions = \<lparr> opt_targetCellCount = None, opt_targetHotspotCount = None,
     opt_snapshotIntervalMs = None, opt_seed = None, opt_resolution = None \<rparr>"

text \<open>
  \<open>new Simulation(opts)\<close>. \<open>randomSeed\<close> is the default
  \<open>Math.floor(Math.random() * 2 ** 31)\<close> of the seed; \<open>seed >>> 0\<close> is the seed modulo
  \<open>2^32\<close>.
\<close>

definition newSimulation :: "int \<Rightarrow> SimulationOptions option \<Rightarrow> Simulation" where
  "newSimulation randomSeed opts =
    (let given = (case opts of Some x \<Rightarrow> x | None \<Rightarrow> noOptions);
         seed0 = (case opt_seed given of Some x \<Rightarrow> x | None \<Rightarrow> randomSeed)
     in \<lparr> targetCellCount = (case opt_targetCellCount given of Some n \<Rightarrow> n | None \<Rightarrow> 250000),
          targetHotspotCount =
            (case opt_targetHotspotCount given of Some n \<Rightarrow> n | None \<Rightarrow> 5000),
          snapshotIntervalMs =
            (case opt_snapshotIntervalMs given of Some n \<Rightarrow> n | None \<Rightarrow> 15 * 60 * 1000),
          resolution = (case opt_resolution given of Some n \<Rightarrow> n | None \<Rightarrow> 9),
          seed = word_of_int seed0,
          rngState = word_of_int seed0,
          rawAgg = [], snapshot = [], hotspots = [], stats = [],
          rawTimerId = None, snapshotTimerId = None, cellLocations = [] \<rparr>)"

subsection \<open>The two generators\<close>

text \<open>
  \<open>#seededRand(seed)\<close> returns a closure over its own copy of \<open>seed\<close>; the closure is
  represented by that variable, and \<open>seededRand_call\<close> is one call of it: the number drawn
  and the closure afterwards. The source adds \<open>0x6D2B79F5\<close> to \<open>seed\<close> as a double and
  only the bit operations reduce it modulo \<open>2^32\<close>; the sum is an exact integer below
  \<open>2^53\<close> for the first four million draws of a stream, so the variable is kept
  modulo \<open>2^32\<close>. The number drawn is \<open>k / 2^32\<close> for a 32-bit \<open>k\<close>.
\<close>

definition seededRand :: "32 word \<Rightarrow> 32 word" where
  "seededRand seed0 = seed0"

definition seededRand_call :: "32 word \<Rightarrow> rat \<times> 32 word" where
  "seededRand_call seed0 =
    (let seed1 = seed0 + 0x6D2B79F5;
         t = seed1;
         t = (t XOR drop_bit 15 t) * (t OR 1);
         t = t XOR (t + (t XOR drop_bit 7 t) * (t OR 61))
     in (rat_of_int (uint (t XOR drop_bit 14 t)) / 4294967296, seed1))"

text \<open>
  \<open>#randUniform(seedOffset)\<close>. The literal \<open>0x9E3779B97F4A7C15\<close> has 64 bits and is read
  as the double \<open>0x9E3779B97F4A8000\<close>; the sum with \<open>#rngState\<close> lies between \<open>2^63\<close> and
  \<open>2^64\<close>, where doubles are the multiples of 2048, and is rounded to the nearest of
  them, a tie to the even one. \<open>>>> 0\<close> then reduces it modulo \<open>2^32\<close>.
\<close>

definition roundToDouble2048 :: "int \<Rightarrow> int" where
  "roundToDouble2048 x =
    (let q = x div 2048; r = x mod 2048
     in 2048 * (if r < 1024 then q else if 1024 < r then q + 1
                else if even q then q else q + 1))"

definition nextRngState :: "32 word \<Rightarrow> 32 word" where
  "nextRngState st = word_of_int (11400714819323199488 + roundToDouble2048 (uint st))"

definition randUniform :: "32 word \<Rightarrow> Simulation \<Rightarrow> rat \<times> Simulation" where
  "randUniform seedOffset s =
    (let st = nextRngState (rngState s);
         t = (st XOR seedOffset) * 0x85EBCA6B;
         t = t XOR drop_bit 13 t
     in (rat_of_int (uint t mod 1000000) / 1000000, s\<lparr> rngState := st \<rparr>))"

subsection \<open>Strings of numbers\<close>

fun digitsOf :: "nat \<Rightarrow> string" where
  "digitsOf n =
    (if n < 10 then [char_of (48 + n)] else digitsOf (n div 10) @ [char_of (48 + n mod 10)])"

declare digitsOf.simps [simp del]

text \<open>\<open>String(n)\<close> for an integer \<open>n\<close>, and \<open>padStart\<close>.\<close>

definition String_of_int :: "int \<Rightarrow> string" where
  "String_of_int i = (if i < 0 then CHR ''-'' # digitsOf (nat (- i)) else digitsOf (nat i))"

definition padStart :: "nat \<Rightarrow> char \<Rightarrow> string \<Rightarrow> string" where
  "padStart n c str = replicate (n - length str) c @ str"

text \<open>
  The double nearest to a rational, a tie going to the even significand, for a
  magnitude in the range of the normal doubles (\<open>2^-1022\<close> to \<open>2^1024\<close>). A double
  between \<open>2^e\<close> and \<open>2^(e+1)\<close> is a multiple of \<open>2^(e-52)\<close>; \<open>binaryExponent a\<close> is that
  \<open>e\<close> for a positive \<open>a = p / q\<close>, the difference of the bit lengths of \<open>p\<close> and \<open>q\<close> or
  one less.
\<close>

definition pow2 :: "int \<Rightarrow> rat" where
  "pow2 e = (if 0 \<le> e then 2 ^ nat e else 1 / 2 ^ nat (- e))"

definition binaryExponent :: "rat \<Rightarrow> int" where
  "binaryExponent a =
    (let (p, q) = quotient_of a;
         d = int (floorlog 2 (nat p)) - int (floorlog 2 (nat q))
     in if pow2 d \<le> a then d else d - 1)"

definition roundHalfEven :: "rat \<Rightarrow> int" where
  "roundHalfEven x =
    (let f = \<lfloor>x\<rfloor>; r = x - rat_of_int f
     in if r < 1 / 2 then f else if 1 / 2 < r then f + 1
        else if even f then f else f + 1)"

definition roundToDouble :: "rat \<Rightarrow> rat" where
  "roundToDouble x =
    (if x = 0 then 0
     else (let ulp = pow2 (binaryExponent \<bar>x\<bar> - 52)
           in sgn x * rat_of_int (roundHalfEven (\<bar>x\<bar> / ulp)) * ulp))"

text \<open>
  \<open>x.toFixed(d)\<close>: the decimal with \<open>d\<close> digits after the point nearest to the exact
  value of \<open>x\<close>, the larger one in magnitude at a tie, with the sign of \<open>x\<close>.
  \<open>fixedDigits d x\<close> is the integer \<open>n\<close> with \<open>n / 10^d\<close> nearest to \<open>\<bar>x\<bar>\<close>. The exponent
  notation of \<open>toFixed\<close> from \<open>10^21\<close> on is left out: the arguments here are
  coordinates.
\<close>

definition fixedDigits :: "nat \<Rightarrow> rat \<Rightarrow> nat" where
  "fixedDigits d x = nat \<lfloor>\<bar>x\<bar> * 10 ^ d + 1 / 2\<rfloor>"

definition toFixed :: "nat \<Rightarrow> rat \<Rightarrow> string" where
  "toFixed d x =
    (let n = fixedDigits d x
     in (if x < 0 then [CHR ''-''] else []) @ digitsOf (n div 10 ^ d)
        @ (if d = 0 then [] else CHR ''.'' # padStart d CHR ''0'' (digitsOf (n mod 10 ^ d))))"

text \<open>
  \<open>parseFloat(x.toFixed(d))\<close>: the double nearest to the decimal that the string denotes.
  It is this double, not the decimal, that a later \<open>toFixed\<close> rounds: \<open>16.728475\<close> is read
  as a double just below it, whose \<open>toFixed(5)\<close> is \<open>16.72847\<close>.
\<close>

definition parseFloat_toFixed :: "nat \<Rightarrow> rat \<Rightarrow> rat" where
  "parseFloat_toFixed d x =
    roundToDouble ((if x < 0 then - 1 else 1) * rat_of_int (int (fixedDigits d x)) / 10 ^ d)"

subsection \<open>Distributions of a hotspot\<close>

text \<open>\<open>obj[k]++\<close>: a missing key reads as \<open>undefined\<close>, which \<open>++\<close> turns into \<open>NaN\<close>.\<close>

definition postIncrement :: "'k \<Rightarrow> ('k \<times> jsnum) list \<Rightarrow> ('k \<times> jsnum) list" where
  "postIncrement k obj =
    AList.update k (case map_of obj k of Some v \<Rightarrow> js_add v (Num 1) | None \<Rightarrow> NaN) obj"

text \<open>\<open>obj[k] = (obj[k] ?? 0) + 1\<close>.\<close>

definition countUp :: "'k \<Rightarrow> ('k \<times> jsnum) list \<Rightarrow> ('k \<times> jsnum) list" where
  "countUp k obj =
    AList.update k (js_add (case map_of obj k of Some v \<Rightarrow> v | None \<Rightarrow> Num 0) (Num 1)) obj"

text \<open>The sum of the values of a distribution.\<close>

definition sumValues :: "('k \<times> jsnum) list \<Rightarrow> jsnum" where
  "sumValues obj = foldr js_add (map snd obj) (Num 0)"

definition timeStr :: "int \<Rightarrow> int \<Rightarrow> string" where
  "timeStr hour minute =
    padStart 2 CHR ''0'' (String_of_int hour) @ [CHR '':'']
      @ padStart 2 CHR ''0'' (String_of_int minute)"

definition dayNames :: "string list" where
  "dayNames = [''Mo'', ''Tu'', ''We'', ''Th'', ''Fr'', ''Sa'', ''Su'']"

text \<open>Reading an array at an index outside it gives \<open>undefined\<close>, as a key \<open>"undefined"\<close>.\<close>

definition dayName :: "int \<Rightarrow> string" where
  "dayName dayIdx =
    (if 0 \<le> dayIdx \<and> dayIdx < int (length dayNames) then dayNames ! nat dayIdx
     else ''undefined'')"

definition initial_by_day :: "(string \<times> jsnum) list" where
  "initial_by_day = map (\<lambda>d. (d, Num 0)) dayNames"

text \<open>The first loop of \<open>#generateHotspotStatistics\<close>: the 48 half hours, all at 0.\<close>

definition initial_by_time :: "(string \<times> jsnum) list" where
  "initial_by_time =
    foldl (\<lambda>obj i. AList.update (timeStr (i div 2) ((i mod 2) * 30)) (Num 0) obj) []
      [0..47]"

text \<open>
  One round of the \<open>while (remaining > 0)\<close> loop: one occurrence is counted in each
  of the three distributions. The draws are in the order of the source.
\<close>

definition statisticsRound :: "int \<Rightarrow> 32 word \<Rightarrow> Distribution \<Rightarrow> Distribution \<times> 32 word" where
  "statisticsRound time_impact' r distr =
    (let (u, r) = seededRand_call r;
         week = 1 + Math_floor (u * 52);
         by_week' = countUp week (by_week distr);
         (dayRoll, r) = seededRand_call r;
         (u, r) = seededRand_call r;
         dayIdx = (if dayRoll < 7 / 10 then Math_floor (u * 5) else 5 + Math_floor (u * 2));
         by_day' = postIncrement (dayName dayIdx) (by_day distr);
         (timeRoll, r) = seededRand_call r;
         (hour, r) =
           (if time_impact' \<ge> 3 \<and> timeRoll < 6 / 10 then
              (let (coin, r) = seededRand_call r;
                   (u, r) = seededRand_call r
               in (if coin < 1 / 2 then 7 + Math_floor (u * 2) else 16 + Math_floor (u * 3), r))
            else if time_impact' \<ge> 4 \<and> timeRoll < 8 / 10 then
              (let (u, r) = seededRand_call r;
                   hour = 22 + Math_floor (u * 6)
               in (if hour \<ge> 24 then hour - 24 else hour, r))
            else
              (let (u, r) = seededRand_call r in (Math_floor (u * 24), r)));
         (coin, r) = seededRand_call r;
         minute = (if coin < 1 / 2 then 0 else 30);
         by_time' = postIncrement (timeStr hour minute) (by_time distr)
     in (\<lparr> by_week = by_week', by_day = by_day', by_time = by_time' \<rparr>, r))"

function statisticsLoop ::
  "int \<Rightarrow> int \<Rightarrow> 32 word \<Rightarrow> Distribution \<Rightarrow> Distribution" where
  "statisticsLoop remaining time_impact' r distr =
    (if remaining > 0 then
       (case statisticsRound time_impact' r distr of
          (distr, r) \<Rightarrow> statisticsLoop (remaining - 1) time_impact' r distr)
     else distr)"
  by pat_completeness auto
termination
  by (relation "measure (\<lambda>(remaining, _, _, _). nat remaining)") auto

declare statisticsLoop.simps [simp del]

definition generateHotspotStatistics :: "32 word \<Rightarrow> int \<Rightarrow> int \<Rightarrow> Distribution" where
  "generateHotspotStatistics r total_count' time_impact' =
    statisticsLoop total_count' time_impact' r
      \<lparr> by_week = [], by_day = initial_by_day, by_time = initial_by_time \<rparr>"

subsection \<open>The reference geography (data.ts)\<close>

text \<open>The tables of the source, each decimal literal as the fraction it denotes.\<close>

definition highways :: "(rat \<times> rat) list list" where
  "highways = [
    [(500755 / 10000, 144378 / 10000),
     (497813 / 10000, 146850 / 10000),
     (495420 / 10000, 153590 / 10000),
     (493964 / 10000, 155912 / 10000),
     (493540 / 10000, 160100 / 10000),
     (492775 / 10000, 165660 / 10000),
     (491951 / 10000, 166068 / 10000),
     (494100 / 10000, 170000 / 10000),
     (498209 / 10000, 182625 / 10000)],
    [(491951 / 10000, 166068 / 10000),
     (489393 / 10000, 167406 / 10000),
     (487595 / 10000, 168820 / 10000)],
    [(500755 / 10000, 144378 / 10000),
     (497813 / 10000, 146850 / 10000),
     (494144 / 10000, 146588 / 10000),
     (491850 / 10000, 147000 / 10000),
     (489747 / 10000, 144747 / 10000)],
    [(500755 / 10000, 144378 / 10000),
     (499643 / 10000, 140741 / 10000),
     (497390 / 10000, 135910 / 10000),
     (497465 / 10000, 133776 / 10000),
     (497090 / 10000, 130000 / 10000),
     (496631 / 10000, 127777 / 10000)],
    [(500755 / 10000, 144378 / 10000),
     (501510 / 10000, 137900 / 10000),
     (502321 / 10000, 128714 / 10000),
     (500796 / 10000, 123739 / 10000)],
    [(500755 / 10000, 144378 / 10000),
     (502300 / 10000, 140850 / 10000),
     (503500 / 10000, 137970 / 10000),
     (504069 / 10000, 134188 / 10000),
     (504920 / 10000, 130258 / 10000)],
    [(500755 / 10000, 144378 / 10000),
     (505175 / 10000, 140450 / 10000),
     (5066 / 100, 140416 / 10000),
     (507750 / 10000, 141000 / 10000),
     (509013 / 10000, 142540 / 10000)],
    [(500755 / 10000, 144378 / 10000),
     (504106 / 10000, 149070 / 10000),
     (505865 / 10000, 151496 / 10000),
     (507670 / 10000, 150670 / 10000)],
    [(500755 / 10000, 144378 / 10000),
     (501430 / 10000, 151170 / 10000),
     (502092 / 10000, 158328 / 10000),
     (500343 / 10000, 157812 / 10000),
     (497890 / 10000, 169170 / 10000),
     (495938 / 10000, 172509 / 10000),
     (495178 / 10000, 175833 / 10000)],
    [(491951 / 10000, 166068 / 10000),
     (489870 / 10000, 165230 / 10000),
     (488052 / 10000, 166376 / 10000)],
    [(495938 / 10000, 172509 / 10000),
     (494550 / 10000, 174500 / 10000),
     (492236 / 10000, 175320 / 10000),
     (492264 / 10000, 176707 / 10000),
     (490681 / 10000, 174634 / 10000)]]"

record City =
  city_name :: string
  city_lat :: rat
  city_lng :: rat
  weight :: rat
  sigma :: rat

definition cities :: "City list" where
  "cities = [
    \<lparr> city_name = ''Prague'', city_lat = 500755 / 10000, city_lng = 144378 / 10000, weight = 5,
      sigma = 35 / 1000 \<rparr>,
    \<lparr> city_name = ''Brno'', city_lat = 491951 / 10000, city_lng = 166068 / 10000, weight = 3,
      sigma = 3 / 100 \<rparr>,
    \<lparr> city_name = ''Ostrava'', city_lat = 498209 / 10000, city_lng = 182625 / 10000, weight = 2,
      sigma = 3 / 100 \<rparr>,
    \<lparr> city_name = ''Plzen'', city_lat = 497465 / 10000, city_lng = 133776 / 10000, weight = 15 / 10,
      sigma = 25 / 1000 \<rparr>,
    \<lparr> city_name = ''Liberec'', city_lat = 507671 / 10000, city_lng = 150562 / 10000, weight = 1,
      sigma = 2 / 100 \<rparr>,
    \<lparr> city_name = ''Olomouc'', city_lat = 495938 / 10000, city_lng = 172509 / 10000, weight = 1,
      sigma = 2 / 100 \<rparr>,
    \<lparr> city_name = ''CeskeBudejovice'', city_lat = 489747 / 10000, city_lng = 144749 / 10000, weight = 8 / 10,
      sigma = 2 / 100 \<rparr>,
    \<lparr> city_name = ''HradecKralove'', city_lat = 502092 / 10000, city_lng = 158328 / 10000, weight = 9 / 10,
      sigma = 2 / 100 \<rparr>,
    \<lparr> city_name = ''Pardubice'', city_lat = 500343 / 10000, city_lng = 157812 / 10000, weight = 7 / 10,
      sigma = 2 / 100 \<rparr>,
    \<lparr> city_name = ''Usti'', city_lat = 5066 / 100, city_lng = 140416 / 10000, weight = 8 / 10,
      sigma = 2 / 100 \<rparr>,
    \<lparr> city_name = ''KarlovyVary'', city_lat = 502311 / 10000, city_lng = 128716 / 10000, weight = 5 / 10,
      sigma = 15 / 1000 \<rparr>,
    \<lparr> city_name = ''Zlin'', city_lat = 492264 / 10000, city_lng = 176706 / 10000, weight = 6 / 10,
      sigma = 15 / 1000 \<rparr>]"

subsection \<open>What the engine takes from its platform\<close>

text \<open>
  The functions of \<open>Math\<close>, of \<open>Date\<close> and of the h3-js library that the engine calls
  are parameters of the model. \<open>latLngToCell\<close> may throw, which is \<open>None\<close>;
  \<open>utcYearStart t\<close> is \<open>Date.UTC(d.getUTCFullYear(), 0, 0)\<close> for the date \<open>d\<close> of time
  value \<open>t\<close>. Arithmetic itself is exact here and rounded to a double in the source.
\<close>

record Runtime =
  Math_sqrt :: "rat \<Rightarrow> rat"
  Math_log :: "rat \<Rightarrow> rat"
  Math_cos :: "rat \<Rightarrow> rat"
  Math_sin :: "rat \<Rightarrow> rat"
  Math_atan2 :: "rat \<Rightarrow> rat \<Rightarrow> rat"
  Math_PI :: rat
  latLngToCell :: "rat \<Rightarrow> rat \<Rightarrow> nat \<Rightarrow> H3Index option"
  cellToLatLng :: "H3Index \<Rightarrow> rat \<times> rat"
  utcYearStart :: "int \<Rightarrow> int"

text \<open>The remainder \<open>%\<close> of JavaScript, with the sign of the dividend.\<close>

definition js_rem :: "rat \<Rightarrow> rat \<Rightarrow> rat" where
  "js_rem x y = x - y * rat_of_int (if 0 \<le> x / y then \<lfloor>x / y\<rfloor> else \<lceil>x / y\<rceil>)"

definition js_rem_int :: "int \<Rightarrow> int \<Rightarrow> int" where
  "js_rem_int a b = sgn a * (\<bar>a\<bar> mod \<bar>b\<bar>)"

subsection \<open>Sampling helpers of \<open>generateInitialCells\<close> and \<open>generateInitialHotspots\<close>\<close>

text \<open>\<open>normal(r, mean, std)\<close>: Box-Muller on two draws; a draw of 0 is replaced by \<open>1e-9\<close>.\<close>

definition normal :: "Runtime \<Rightarrow> 32 word \<Rightarrow> rat \<Rightarrow> rat \<Rightarrow> rat \<times> 32 word" where
  "normal rt r0 mean std =
    (let (d1, r1) = seededRand_call r0;
         u1 = (if d1 = 0 then 1 / 1000000000 else d1);
         (d2, r2) = seededRand_call r1;
         u2 = (if d2 = 0 then 1 / 1000000000 else d2);
         z0 = Math_sqrt rt (- 2 * Math_log rt u1) * Math_cos rt (2 * Math_PI rt * u2)
     in (mean + z0 * std, r2))"

text \<open>\<open>pickCity(r)\<close>: the walk along the cumulative weights, and \<open>cities[0]\<close> after it.\<close>

fun pickCityLoop :: "rat \<Rightarrow> City list \<Rightarrow> City option" where
  "pickCityLoop v [] = None"
| "pickCityLoop v (c # cs) = (if v \<le> weight c then Some c else pickCityLoop (v - weight c) cs)"

definition pickCity :: "32 word \<Rightarrow> error + (City \<times> 32 word)" where
  "pickCity r0 =
    (let total = foldl (\<lambda>s c. s + weight c) 0 cities;
         (u, r1) = seededRand_call r0;
         v = u * total
     in case pickCityLoop v cities of
          Some c \<Rightarrow> Inr (c, r1)
        | None \<Rightarrow> (case cities of c # _ \<Rightarrow> Inr (c, r1) | [] \<Rightarrow> Inl TypeError))"

record PolylinePoint =
  pt_lat :: rat
  pt_lng :: rat
  pt_heading :: rat

definition segLength :: "Runtime \<Rightarrow> rat \<times> rat \<Rightarrow> rat \<times> rat \<Rightarrow> rat" where
  "segLength rt a b =
    (let dx = fst b - fst a; dy = snd b - snd a in Math_sqrt rt (dx * dx + dy * dy))"

definition headingOf :: "Runtime \<Rightarrow> rat \<times> rat \<Rightarrow> rat \<times> rat \<Rightarrow> rat" where
  "headingOf rt a b =
    js_rem (Math_atan2 rt (snd b - snd a) (fst b - fst a) * 180 / Math_PI rt + 360) 360"

text \<open>
  The second loop of \<open>sampleAlongPolyline\<close> over the segments \<open>(poly[i], poly[i + 1])\<close>:
  the point at distance \<open>t\<close>, or \<open>None\<close> when the loop runs out. (A segment of length 0
  reached with \<open>t = 0\<close> divides 0 by 0, which is 0 here and \<open>NaN\<close> in the source.)
\<close>

fun walkSegments ::
  "Runtime \<Rightarrow> rat \<Rightarrow> ((rat \<times> rat) \<times> (rat \<times> rat)) list \<Rightarrow> PolylinePoint option" where
  "walkSegments rt t [] = None"
| "walkSegments rt t ((a, b) # rest) =
    (let L = segLength rt a b in
     if t \<le> L then
       (let frac = t / L in
        Some \<lparr> pt_lat = fst a + (fst b - fst a) * frac,
               pt_lng = snd a + (snd b - snd a) * frac,
               pt_heading = headingOf rt a b \<rparr>)
     else walkSegments rt (t - L) rest)"

text \<open>
  \<open>sampleAlongPolyline(poly, r)\<close>. The fall-back reads the last two points and throws a
  \<open>TypeError\<close> on a polyline of fewer than two.
\<close>

definition sampleAlongPolyline ::
  "Runtime \<Rightarrow> (rat \<times> rat) list \<Rightarrow> 32 word \<Rightarrow> error + (PolylinePoint \<times> 32 word)" where
  "sampleAlongPolyline rt poly r0 =
    (let segments = zip poly (tl poly);
         total = foldl (\<lambda>s (a, b). s + segLength rt a b) 0 segments;
         (u, r1) = seededRand_call r0;
         t = u * total
     in case walkSegments rt t segments of
          Some p \<Rightarrow> Inr (p, r1)
        | None \<Rightarrow>
            (if 2 \<le> length poly then
               (let last = poly ! (length poly - 1); prev = poly ! (length poly - 2)
                in Inr (\<lparr> pt_lat = fst last, pt_lng = snd last,
                           pt_heading = headingOf rt prev last \<rparr>, r1))
             else Inl TypeError))"

subsection \<open>\<open>generateInitialHotspots\<close>\<close>

definition RISK_TYPES :: "string list" where
  "RISK_TYPES = [''BDV'', ''VA'', ''GW'', ''HL'', ''SR'', ''FOG'', ''HR'', ''EB'', ''CW'',
     ''PH'', ''BUM'']"

definition riskType :: "int \<Rightarrow> string" where
  "riskType idx =
    (if 0 \<le> idx \<and> idx < int (length RISK_TYPES) then RISK_TYPES ! nat idx
     else ''undefined'')"

definition presence :: "int \<Rightarrow> Presence" where
  "presence n = \<lparr> is_present = (n > 0), cond_count = n \<rparr>"

text \<open>
  The body of the loop for index \<open>i\<close>: the key in \<open>#hotspots\<close> and the hotspot. \<open>now\<close> is
  the \<open>Date.now()\<close> and \<open>uuid\<close> the \<open>crypto.randomUUID()\<close> of this iteration; the draws
  from \<open>r\<close> are in the order in which the source evaluates them.
\<close>

definition generateHotspot ::
  "Runtime \<Rightarrow> int \<Rightarrow> string \<Rightarrow> 32 word \<Rightarrow> nat \<Rightarrow> error + (string \<times> RiskHotspot)" where
  "generateHotspot rt now uuid seed0 i =
    (let r = seededRand (word_of_nat i XOR seed0 XOR 0xABCDEF);
         (u, r) = seededRand_call r;
         hIdx = Math_floor (u * rat_of_nat (length highways))
     in if \<not> (0 \<le> hIdx \<and> hIdx < int (length highways)) then Inl TypeError
        else case sampleAlongPolyline rt (highways ! nat hIdx) r of
          Inl e \<Rightarrow> Inl e
        | Inr (base, r) \<Rightarrow>
    (let (u, r) = seededRand_call r;
         lat = pt_lat base + (u - 1 / 2) * (1 / 1000);
         (u, r) = seededRand_call r;
         lng = pt_lng base + (u - 1 / 2) * (1 / 1000);
         (u, r) = seededRand_call r;
         total_count = 5 + Math_floor (u ^ 3 * 500);
         (u, r) = seededRand_call r;
         lastTs = now - Math_floor (u * 30 * 24 * 3600 * 1000);
         (u, r) = seededRand_call r;
         firstTs = lastTs - Math_floor ((30 + u * 300) * 24 * 3600 * 1000);
         (u, r) = seededRand_call r;
         weather_impact = 1 + Math_floor (u * 5);
         (u, r) = seededRand_call r;
         time_of_day_impact = 1 + Math_floor (u * 5);
         (u, r) = seededRand_call r;
         dry_road_count = Math_floor
           (rat_of_int total_count * (if weather_impact \<le> 2 then 8 / 10 else 3 / 10) * u);
         (u, r) = seededRand_call r;
         wet_road_count = Math_floor
           (rat_of_int total_count * (if weather_impact \<ge> 3 then 7 / 10 else 2 / 10) * u);
         (u, r) = seededRand_call r;
         rain_count = Math_floor
           (rat_of_int wet_road_count * (if weather_impact \<ge> 3 then 8 / 10 else 3 / 10) * u);
         (u, r) = seededRand_call r;
         slippery_road_count = Math_floor
           (rat_of_int total_count * (if weather_impact \<ge> 4 then 5 / 10 else 1 / 10) * u);
         (u, r) = seededRand_call r;
         fog_count = Math_floor
           (rat_of_int total_count * (if weather_impact \<ge> 4 then 3 / 10 else 5 / 100) * u);
         (u, r) = seededRand_call r;
         crosswind_count = Math_floor (rat_of_int total_count * (1 / 10) * u);
         (u, r) = seededRand_call r;
         location = \<lparr> latitude = parseFloat_toFixed 6 lat,
                      longitude = parseFloat_toFixed 6 lng,
                      std_dev = 5 + u * 25 \<rparr>;
         (u, r) = seededRand_call r;
         type = riskType (Math_floor (u * rat_of_nat (length RISK_TYPES)));
         (u, r) = seededRand_call r;
         importance = 1 + Math_floor (u * 5);
         (u, r) = seededRand_call r;
         confidence = 50 + Math_floor (u * 50);
         (u, r) = seededRand_call r;
         residual_confidence = 10 + Math_floor (u * 80);
         (u, r) = seededRand_call r;
         heading_avg = Math_round (pt_heading base + (u - 1 / 2) * 10);
         (u, r) = seededRand_call r;
         heading_std_dev = 2 + u * 15;
         (u, r) = seededRand_call r;
         air_avg = - 5 + u * 25;
         (u, r) = seededRand_call r;
         air_std_dev = 1 + u * 5;
         (u, r) = seededRand_call r;
         sun_avg = u * 360;
         (u, r) = seededRand_call r;
         sun_std_dev = 10 + u * 40;
         hotspot = \<lparr>
           hs_location = location,
           hs_metadata = \<lparr>
             hs_id = uuid,
             risk = \<lparr> risk_type = type, importance = importance,
                      risk_confidence = confidence,
                      residual_confidence = residual_confidence \<rparr>,
             hs_total_count = total_count,
             weather_impact = weather_impact,
             time_of_day_impact = time_of_day_impact \<rparr>,
           timeframe_first = firstTs,
           hs_timeframe_last = lastTs,
           heading = \<lparr> avg = rat_of_int heading_avg, dev = heading_std_dev \<rparr>,
           hs_environment = \<lparr>
             air_temperature = \<lparr> avg = air_avg, dev = air_std_dev \<rparr>,
             sun_position = \<lparr> avg = sun_avg, dev = sun_std_dev \<rparr>,
             hs_conditions = \<lparr>
               dry_road = presence dry_road_count,
               wet_road = presence wet_road_count,
               rain = presence rain_count,
               slippery_road = presence slippery_road_count,
               hs_fog = presence fog_count,
               crosswind = presence crosswind_count \<rparr> \<rparr>,
           statistics = generateHotspotStatistics r total_count time_of_day_impact \<rparr>;
         id' = toFixed 5 (latitude (hs_location hotspot)) @ [CHR ''_'']
              @ toFixed 5 (longitude (hs_location hotspot))
     in Inr (id', hotspot)))"

text \<open>
  The loop \<open>for (let i = 0; i < count; i++)\<close> over the indices still to do, with
  \<open>this.#hotspots.set(id, hotspot)\<close> at the end of each round. \<open>clock i\<close> and \<open>uuids i\<close>
  are the time and the UUID that round \<open>i\<close> obtains.
\<close>

fun hotspotsLoop ::
  "Runtime \<Rightarrow> (nat \<Rightarrow> int) \<Rightarrow> (nat \<Rightarrow> string) \<Rightarrow> 32 word \<Rightarrow> nat list
    \<Rightarrow> (string \<times> RiskHotspot) list \<Rightarrow> error + (string \<times> RiskHotspot) list" where
  "hotspotsLoop rt clock uuids seed0 [] acc = Inr acc"
| "hotspotsLoop rt clock uuids seed0 (i # rest) acc =
    (case generateHotspot rt (clock i) (uuids i) seed0 i of
       Inl e \<Rightarrow> Inl e
     | Inr (id', hotspot) \<Rightarrow>
         hotspotsLoop rt clock uuids seed0 rest (AList.update id' hotspot acc))"

definition generateInitialHotspots ::
  "Runtime \<Rightarrow> (nat \<Rightarrow> int) \<Rightarrow> (nat \<Rightarrow> string) \<Rightarrow> nat option \<Rightarrow> Simulation
    \<Rightarrow> error + Simulation" where
  "generateInitialHotspots rt clock uuids forceCount s =
    (let count = (case forceCount of Some n \<Rightarrow> n | None \<Rightarrow> targetHotspotCount s)
     in case hotspotsLoop rt clock uuids (seed s) [0..<count] [] of
          Inl e \<Rightarrow> Inl e
        | Inr hs \<Rightarrow> Inr (s\<lparr> hotspots := hs \<rparr>))"

subsection \<open>The accumulator and the flush\<close>

text \<open>
  \<open>pushRawEvent\<close> on the accumulator: the bucket of the cell, or a fresh one of zeros,
  takes the event and is stored back. \<open>now\<close> is what \<open>Date.now()\<close> returns. The numbers
  of the event are added as they come: \<open>??\<close> replaces only a missing field, so a
  confidence or a count that is \<open>NaN\<close> stays, and the timestamp is any number.
\<close>

definition emptyBucket :: RawAgg where
  "emptyBucket = \<lparr> sumTemp = Num 0, count = 0, lastTs = Num 0, sumConfidence = Num 0,
     sumCounts = Num 0, fogVotes = 0, crossWindVotes = 0, rainScore = 0, roadScore = 0 \<rparr>"

definition addEvent :: "int \<Rightarrow> RawEvent \<Rightarrow> RawAgg \<Rightarrow> RawAgg" where
  "addEvent now event bucket =
    (let ts = (case ev_timestamp event of Some t \<Rightarrow> t | None \<Rightarrow> Num (rat_of_int now)) in
     \<lparr> sumTemp = js_add (sumTemp bucket) (ev_temperature event),
       count = count bucket + 1,
       lastTs = js_max (lastTs bucket) ts,
       sumConfidence = js_add (sumConfidence bucket)
         (case ev_confidence event of Some c \<Rightarrow> c | None \<Rightarrow> Num 80),
       sumCounts = js_add (sumCounts bucket)
         (case ev_count event of Some c \<Rightarrow> c | None \<Rightarrow> Num 1),
       fogVotes = fogVotes bucket + (if ev_fog event = Some True then 1 else 0),
       crossWindVotes = crossWindVotes bucket
         + (if ev_cross_wind event = Some True then 1 else 0),
       rainScore = rainScore bucket + rainIntensityToScore
         (case ev_rain_intensity event of Some r \<Rightarrow> r | None \<Rightarrow> NONE),
       roadScore = roadScore bucket + roadConditionToScore
         (case ev_road_condition event of Some r \<Rightarrow> r | None \<Rightarrow> DRY) \<rparr>)"

definition pushRawEvent :: "int \<Rightarrow> H3Index \<Rightarrow> RawEvent \<Rightarrow> Simulation \<Rightarrow> Simulation" where
  "pushRawEvent now h3Index event s =
    (let bucket = (case map_of (rawAgg s) h3Index of Some b \<Rightarrow> b | None \<Rightarrow> emptyBucket)
     in s\<lparr> rawAgg := AList.update h3Index (addEvent now event bucket) (rawAgg s) \<rparr>)"

text \<open>
  The body of the loop of \<open>#applyRawAggToSnapshotBatch\<close>: the cell built from one entry
  of the accumulator. \<open>old\<close> is \<open>this.#snapshot\<close>, still the previous snapshot inside the
  loop; \<open>now\<close> is the \<open>Date.now()\<close> read before the loop and \<open>later\<close> the time of the
  \<open>new Date()\<close> inside it. \<open>new Date(agg.lastTs || now).toISOString()\<close> takes \<open>now\<close> when
  \<open>lastTs\<close> is 0 or \<open>NaN\<close> and throws when \<open>lastTs\<close> is no time value; nothing is
  evaluated after it that could be observed. The mean scores are quotients of two
  integers; comparing the exact quotient with \<open>6/5\<close> decides as the source does with the
  doubles, for any count below \<open>10^15\<close>.
\<close>

definition cellOfAgg ::
  "(H3Index \<times> Cell) list \<Rightarrow> int \<Rightarrow> int \<Rightarrow> H3Index \<Rightarrow> RawAgg \<Rightarrow> error + Cell" where
  "cellOfAgg old now later h3index agg =
    (let n = rat_of_nat (max 1 (count agg));
         avgTemp = js_div (sumTemp agg) (Num n);
         confidence = js_max (Num 0)
           (js_min (Num 100) (js_round (js_div (sumConfidence agg) (Num n))));
         total_count = js_max (Num 1) (js_round (sumCounts agg));
         averageRainScore = rat_of_nat (rainScore agg) / n;
         rainIntensity =
           (if averageRainScore \<ge> 3 then HIGH
            else if averageRainScore \<ge> 6 / 5 then MEDIUM
            else if averageRainScore \<ge> 3 / 5 then LOW
            else NONE);
         avgRoad = rat_of_nat (roadScore agg) / n;
         roadCondition =
           (if avgRoad \<ge> 5 / 2 then SLIPPERY_ICE
            else if avgRoad \<ge> 9 / 5 then SLIPPERY
            else if avgRoad \<ge> 4 / 5 then WET
            else DRY);
         fog = (rat_of_nat (fogVotes agg) / n \<ge> 1 / 2);
         crossWind = (rat_of_nat (crossWindVotes agg) / n \<ge> 1 / 5)
     in case (if falsy (lastTs agg) then Inr now else toISOString (lastTs agg)) of
          Inl e \<Rightarrow> Inl e
        | Inr lastIso \<Rightarrow> Inr
           \<lparr> h3_index = h3index,
             timeframe_last = lastIso,
             metadata = \<lparr> confidence = confidence, total_count = total_count \<rparr>,
             environment = \<lparr>
               temperature = js_div (js_round (js_mul avgTemp (Num 10))) (Num 10),
               is_night = (case map_of old h3index of
                   Some c \<Rightarrow> is_night (environment c)
                 | None \<Rightarrow> (getUTCHours later + 1) mod 24 < 6),
               conditions = \<lparr> rain_intensity = rainIntensity, road_condition = roadCondition,
                 fog = fog, cross_wind = crossWind \<rparr> \<rparr> \<rparr>)"

text \<open>
  The loop over the entries of the accumulator, in insertion order. \<open>clock 0\<close> is the
  \<open>Date.now()\<close> before the loop, \<open>clock (i + 1)\<close> the time in iteration \<open>i\<close>. An entry
  whose cell cannot be built ends the loop with its error.
\<close>

fun flushLoop ::
  "(H3Index \<times> Cell) list \<Rightarrow> (nat \<Rightarrow> int) \<Rightarrow> nat \<Rightarrow> (H3Index \<times> RawAgg) list
    \<Rightarrow> (H3Index \<times> Cell) list \<Rightarrow> error + (H3Index \<times> Cell) list" where
  "flushLoop old clock i [] newSnapshot = Inr newSnapshot"
| "flushLoop old clock i ((h3index, agg) # rest) newSnapshot =
    (case cellOfAgg old (clock 0) (clock (i + 1)) h3index agg of
       Inl e \<Rightarrow> Inl e
     | Inr cell \<Rightarrow>
         flushLoop old clock (i + 1) rest (AList.update h3index cell newSnapshot))"

text \<open>
  \<open>#applyRawAggToSnapshotBatch\<close>, the callback of the snapshot timer. The snapshot is
  replaced and the accumulator cleared after the loop; when the loop throws, neither
  happens.
\<close>

definition applyRawAggToSnapshotBatch ::
  "(nat \<Rightarrow> int) \<Rightarrow> Simulation \<Rightarrow> error + Simulation" where
  "applyRawAggToSnapshotBatch clock s =
    (case flushLoop (snapshot s) clock 0 (rawAgg s) [] of
       Inl e \<Rightarrow> Inl e
     | Inr newSnapshot \<Rightarrow> Inr (s\<lparr> snapshot := newSnapshot, rawAgg := [] \<rparr>))"

subsection \<open>\<open>generateInitialCells\<close>\<close>

definition h3IndexFromLatLng :: "Runtime \<Rightarrow> rat \<Rightarrow> rat \<Rightarrow> nat \<Rightarrow> error + H3Index" where
  "h3IndexFromLatLng rt lat lng res =
    (case latLngToCell rt lat lng res of Some idx \<Rightarrow> Inr idx | None \<Rightarrow> Inl H3Failed)"

text \<open>A point near a city: \<open>pickCity\<close>, then two normal draws around it.\<close>

definition nearCity :: "Runtime \<Rightarrow> 32 word \<Rightarrow> rat \<Rightarrow> error + (rat \<times> rat)" where
  "nearCity rt r k =
    (case pickCity r of
       Inl e \<Rightarrow> Inl e
     | Inr (city, r) \<Rightarrow>
         (let (lat, r) = normal rt r (city_lat city) (sigma city * k);
              (lng, r) = normal rt r (city_lng city) (sigma city * 2 * k)
          in Inr (lat, lng)))"

text \<open>A point near a highway: a polyline, a point along it, two normal draws around it.\<close>

definition nearHighway :: "Runtime \<Rightarrow> 32 word \<Rightarrow> rat \<Rightarrow> error + (rat \<times> rat)" where
  "nearHighway rt r std =
    (let (u, r) = seededRand_call r;
         hIdx = Math_floor (u * rat_of_nat (length highways))
     in if \<not> (0 \<le> hIdx \<and> hIdx < int (length highways)) then Inl TypeError
        else case sampleAlongPolyline rt (highways ! nat hIdx) r of
          Inl e \<Rightarrow> Inl e
        | Inr (base, r) \<Rightarrow>
            (let (lat, r) = normal rt r (pt_lat base) std;
                 (lng, r) = normal rt r (pt_lng base) std
             in Inr (lat, lng)))"

text \<open>The function mapped over the indices \<open>0 .. count - 1\<close>: the location of index \<open>i\<close>.\<close>

definition sampleLocation :: "Runtime \<Rightarrow> 32 word \<Rightarrow> nat \<Rightarrow> nat \<Rightarrow> error + CellLocation" where
  "sampleLocation rt seed0 res i =
    (let r = seededRand (word_of_nat i XOR seed0);
         (choice, r) = seededRand_call r;
         point =
           (if choice < 50 / 100 then nearCity rt r 1
            else if choice < 75 / 100 then nearCity rt r 5
            else if choice < 80 / 100 then nearHighway rt r (1 / 100)
            else if choice < 92 / 100 then nearHighway rt r (5 / 100)
            else nearCity rt r 10)
     in case point of
          Inl e \<Rightarrow> Inl e
        | Inr (lat, lng) \<Rightarrow>
            (case h3IndexFromLatLng rt lat lng res of
               Inl e \<Rightarrow> Inl e
             | Inr h3Index \<Rightarrow> Inr \<lparr> loc_lat = lat, loc_lng = lng, loc_h3 = h3Index \<rparr>))"

fun sampleLocations ::
  "Runtime \<Rightarrow> 32 word \<Rightarrow> nat \<Rightarrow> nat list \<Rightarrow> error + CellLocation list" where
  "sampleLocations rt seed0 res [] = Inr []"
| "sampleLocations rt seed0 res (i # rest) =
    (case sampleLocation rt seed0 res i of
       Inl e \<Rightarrow> Inl e
     | Inr loc \<Rightarrow>
         (case sampleLocations rt seed0 res rest of
            Inl e \<Rightarrow> Inl e
          | Inr locs \<Rightarrow> Inr (loc # locs)))"

definition dayOfYear :: "Runtime \<Rightarrow> int \<Rightarrow> int" where
  "dayOfYear rt t = Math_floor (rat_of_int (t - utcYearStart rt t) / (1000 * 60 * 60 * 24))"

text \<open>
  \<open>#generateEnvironmentForLocation\<close>. The draw for the fog at night is made only when
  it is night and colder than 6 degrees, and the background draw only when that one
  did not already give fog, as \<open>&&\<close> and \<open>||\<close> evaluate.
\<close>

definition generateEnvironmentForLocation ::
  "Runtime \<Rightarrow> rat \<Rightarrow> rat \<Rightarrow> int \<Rightarrow> 32 word \<Rightarrow> Simulation \<Rightarrow> CellEnvironment \<times> Simulation" where
  "generateEnvironmentForLocation rt lat lng timestampMs rngSeed s =
    (let doy = dayOfYear rt timestampMs;
         latFactor = (lat - 4855 / 100) / (5106 / 100 - 4855 / 100);
         seasonal = Math_sin rt (2 * Math_PI rt * (rat_of_int doy / 365)) * 12;
         baseline = 6 - latFactor * 3;
         (u, s) = randUniform rngSeed s;
         noise = (u - 1 / 2) * 4;
         temperature = rat_of_int (Math_round ((baseline + seasonal + noise) * 10)) / 10;
         localHour = (getUTCHours timestampMs + 1) mod 24;
         isNight = (localHour < 6 \<or> localHour \<ge> 21);
         rainChanceBase = 15 / 100 + 1 / 10 * max 0 (seasonal / 12);
         (rainRoll, s) = randUniform (rngSeed + 1) s;
         rainIntensity =
           (if rainRoll < rainChanceBase * (7 / 10) then LOW
            else if rainRoll < rainChanceBase * (9 / 10) then MEDIUM
            else if rainRoll < rainChanceBase * 1 then HIGH
            else NONE);
         roadCondition =
           (if rainIntensity = MEDIUM \<or> rainIntensity = HIGH then
              (let rc = (if temperature \<le> 0 then SLIPPERY else WET);
                   rc = (if temperature \<le> - 5 then SLIPPERY_ICE else rc)
               in if rainIntensity = HIGH \<and> temperature > 0 then SLIPPERY_WET else rc)
            else if temperature \<le> - 8 then SLIPPERY_ICE else DRY);
         (fog, s) =
           (if isNight \<and> temperature < 6 then
              (let (u, s) = randUniform (rngSeed + 2) s
               in if u < 8 / 100 then (True, s)
                  else (let (u, s) = randUniform (rngSeed + 3) s in (u < 1 / 100, s)))
            else (let (u, s) = randUniform (rngSeed + 3) s in (u < 1 / 100, s)));
         (u, s) = randUniform (rngSeed + 4) s;
         crossWind = (u < 5 / 100)
     in (\<lparr> temperature = Num temperature, is_night = isNight,
           conditions = \<lparr> rain_intensity = rainIntensity, road_condition = roadCondition,
             fog = fog, cross_wind = crossWind \<rparr> \<rparr>, s))"

text \<open>
  The body of the second loop of \<open>generateInitialCells\<close> for the location at index
  \<open>i\<close>: the cell of the baseline snapshot and the bucket that seeds the accumulator.
\<close>

definition initialCell ::
  "Runtime \<Rightarrow> int \<Rightarrow> nat \<Rightarrow> CellLocation \<Rightarrow> Simulation \<Rightarrow> (Cell \<times> RawAgg) \<times> Simulation" where
  "initialCell rt now i loc s =
    (let (env, s) = generateEnvironmentForLocation rt (loc_lat loc) (loc_lng loc) now
                      (word_of_nat i) s;
         (u, s) = randUniform (word_of_nat i) s;
         confidence = Math_floor (70 + u * 30);
         (u, s) = randUniform (word_of_nat (i + 1)) s;
         total_count = max 1 (Math_floor (1 + u * 200));
         cell = \<lparr> h3_index = loc_h3 loc, timeframe_last = now,
                  metadata = \<lparr> confidence = Num (rat_of_int confidence),
                    total_count = Num (rat_of_int total_count) \<rparr>,
                  environment = env \<rparr>;
         bucket = \<lparr> sumTemp = temperature env, count = 1, lastTs = Num (rat_of_int now),
                    sumConfidence = Num (rat_of_int confidence),
                    sumCounts = Num (rat_of_int total_count),
                    fogVotes = (if fog (conditions env) then 1 else 0),
                    crossWindVotes = (if cross_wind (conditions env) then 1 else 0),
                    rainScore = rainIntensityToScore (rain_intensity (conditions env)),
                    roadScore = roadConditionToScore (road_condition (conditions env)) \<rparr>
     in ((cell, bucket), s))"

text \<open>The loop itself, with \<open>this.#snapshot.set\<close> and \<open>this.#rawAgg.set\<close> in each round.\<close>

fun cellsLoop ::
  "Runtime \<Rightarrow> int \<Rightarrow> nat \<Rightarrow> CellLocation list \<Rightarrow> Simulation \<Rightarrow> Simulation" where
  "cellsLoop rt now i [] s = s"
| "cellsLoop rt now i (loc # rest) s =
    (case initialCell rt now i loc s of
       ((cell, bucket), s) \<Rightarrow>
         cellsLoop rt now (i + 1) rest
           (s\<lparr> snapshot := AList.update (loc_h3 loc) cell (snapshot s),
               rawAgg := AList.update (loc_h3 loc) bucket (rawAgg s) \<rparr>))"

definition generateInitialCells ::
  "Runtime \<Rightarrow> int \<Rightarrow> nat option \<Rightarrow> Simulation \<Rightarrow> error + Simulation" where
  "generateInitialCells rt now forceCount s =
    (let count = (case forceCount of Some n \<Rightarrow> n | None \<Rightarrow> targetCellCount s)
     in case sampleLocations rt (seed s) (resolution s) [0..<count] of
          Inl e \<Rightarrow> Inl e
        | Inr locs \<Rightarrow> Inr (cellsLoop rt now 0 locs (s\<lparr> cellLocations := locs \<rparr>)))"

text \<open>\<open>generateInitialData\<close>: the cells, then the hotspots.\<close>

definition generateInitialData ::
  "Runtime \<Rightarrow> int \<Rightarrow> (nat \<Rightarrow> int) \<Rightarrow> (nat \<Rightarrow> string) \<Rightarrow> Simulation \<Rightarrow> error + Simulation" where
  "generateInitialData rt now clock uuids s =
    (case generateInitialCells rt now None s of
       Inl e \<Rightarrow> Inl e
     | Inr s \<Rightarrow> generateInitialHotspots rt clock uuids None s)"

subsection \<open>The background producer\<close>

text \<open>
  \<open>#produceRandomRawEvent\<close>, one event of a tick of the raw timer. \<open>now\<close> is its
  \<open>Date.now()\<close>. The location read at \<open>idx\<close> is \<open>undefined\<close> outside the array, and
  \<open>loc.h3\<close> then throws.
\<close>

definition produceRandomRawEvent :: "int \<Rightarrow> Simulation \<Rightarrow> error + Simulation" where
  "produceRandomRawEvent now s =
    (if length (cellLocations s) = 0 then Inr s
     else
      (let (u, s) = randUniform 0 s;
           idx = Math_floor (u * rat_of_nat (length (cellLocations s)))
       in if \<not> (0 \<le> idx \<and> idx < int (length (cellLocations s))) then Inl TypeError
          else
           (let loc = cellLocations s ! nat idx;
                base = map_of (snapshot s) (loc_h3 loc);
                seed0 = word_of_int idx XOR word_of_int (js_rem_int now 100000);
                (temp, s) =
                  (case base of
                     Some c \<Rightarrow> (temperature (environment c), s)
                   | None \<Rightarrow> (let (u, s) = randUniform seed0 s in (Num (5 + u * 15), s)));
                (u, s) = randUniform (seed0 + 1) s;
                temp = js_add temp (Num ((u - 1 / 2) * (6 / 10)));
                (u, s) = randUniform (seed0 + 2) s;
                fog = (u < 1 / 100);
                (u, s) = randUniform (seed0 + 3) s;
                crossWind = (u < 2 / 100);
                (u, s) = randUniform (seed0 + 4) s;
                heavy = (u < 2 / 1000);
                (rainRoll, s) = randUniform (seed0 + 5) s;
                rain =
                  (if heavy then (if rainRoll < 7 / 10 then HIGH else MEDIUM)
                   else (if rainRoll < 2 / 100 then LOW else NONE));
                (u, s) = randUniform (seed0 + 6) s
            in Inr (pushRawEvent now (loc_h3 loc)
                 \<lparr> ev_temperature = js_div (js_round (js_mul temp (Num 10))) (Num 10),
                   ev_confidence = Some (Num (rat_of_int (Math_floor (60 + u * 40)))),
                   ev_count = Some (Num 1),
                   ev_fog = Some fog,
                   ev_cross_wind = Some crossWind,
                   ev_rain_intensity = Some rain,
                   ev_road_condition = Some
                     (if rain \<noteq> NONE then (if js_le temp (Num 0) then SLIPPERY else WET)
                      else (if js_le temp (Num (- 8)) then SLIPPERY_ICE else DRY)),
                   ev_timestamp = Some (Num (rat_of_int now)) \<rparr> s))))"

text \<open>
  \<open>start\<close> and \<open>stop\<close> only keep the two timers; \<open>id1\<close> and \<open>id2\<close> are the handles
  that \<open>setInterval\<close> returns. The callbacks of the timers are \<open>produceRandomRawEvent\<close>
  and \<open>applyRawAggToSnapshotBatch\<close>.
\<close>

definition start :: "nat \<Rightarrow> nat \<Rightarrow> Simulation \<Rightarrow> Simulation" where
  "start id1 id2 s =
    (case rawTimerId s of
       Some _ \<Rightarrow> s
     | None \<Rightarrow> s\<lparr> rawTimerId := Some id1, snapshotTimerId := Some id2 \<rparr>)"

definition stop :: "Simulation \<Rightarrow> Simulation" where
  "stop s = s\<lparr> rawTimerId := None, snapshotTimerId := None \<rparr>"

subsection \<open>Long-term statistics\<close>

definition generateInitialStatisticsPlaceholder :: CellStatistics where
  "generateInitialStatisticsPlaceholder =
    \<lparr> lowest = None, highest = None, rain_low = Num 0, rain_medium = Num 0,
      rain_high = Num 0, days_slippery_road = Num 0, days_fog = Num 0,
      days_cross_wind = Num 0 \<rparr>"

text \<open>\<open>#generateInitialStatisticsForCell\<close>: ten draws of \<open>#randUniform()\<close> in this order.\<close>

definition generateInitialStatisticsForCell ::
  "int \<Rightarrow> Cell \<Rightarrow> Simulation \<Rightarrow> CellStatistics \<times> Simulation" where
  "generateInitialStatisticsForCell now cell s =
    (let t = temperature (environment cell);
         (u, s) = randUniform 0 s;
         lowestVal = js_div (js_round (js_mul (js_sub t (Num (5 + u * 15))) (Num 10))) (Num 10);
         (u, s) = randUniform 0 s;
         highestVal = js_div (js_round (js_mul (js_add t (Num (10 + u * 15))) (Num 10))) (Num 10);
         (u, s) = randUniform 0 s;
         lowestTs = now - Math_floor (u * 365) * 24 * 3600 * 1000;
         (u, s) = randUniform 0 s;
         highestTs = now - Math_floor (u * 200) * 24 * 3600 * 1000;
         baseDays = js_max (Num 1) (js_round (js_div (total_count (metadata cell)) (Num 10)));
         (u, s) = randUniform 0 s;
         rainLow = js_round (js_mul baseDays (Num (min 1 (u * (6 / 10)))));
         (u, s) = randUniform 0 s;
         rainMed = js_round (js_mul baseDays (Num (min 1 (u * (3 / 10)))));
         (u, s) = randUniform 0 s;
         rainHigh = js_round (js_mul baseDays (Num (min 1 (u * (5 / 100)))));
         (u, s) = randUniform 0 s;
         slippery = js_round (js_mul
           (js_mul baseDays (Num (if js_le t (Num 0) then 4 / 10 else 5 / 100))) (Num u));
         (u, s) = randUniform 0 s;
         fog = js_round (js_mul
           (js_mul baseDays (Num (if fog (conditions (environment cell)) then 6 / 10
              else 5 / 100))) (Num u));
         (u, s) = randUniform 0 s;
         crossWind = js_round (js_mul (js_mul baseDays (Num (1 / 10))) (Num u))
     in (\<lparr> lowest = Some \<lparr> ext_value = lowestVal, ext_timestamp = lowestTs \<rparr>,
           highest = Some \<lparr> ext_value = highestVal, ext_timestamp = highestTs \<rparr>,
           rain_low = rainLow, rain_medium = rainMed, rain_high = rainHigh,
           days_slippery_road = slippery, days_fog = fog, days_cross_wind = crossWind \<rparr>, s))"

text \<open>A \<open>Partial<CellStatistics>\<close>: each part may be absent.\<close>

record PartialStatistics =
  upd_lowest :: "TemperatureExtreme option"
  upd_highest :: "TemperatureExtreme option"
  upd_rain_low :: "jsnum option"
  upd_rain_medium :: "jsnum option"
  upd_rain_high :: "jsnum option"
  upd_slippery_road :: "jsnum option"
  upd_fog :: "jsnum option"
  upd_cross_wind :: "jsnum option"

definition orElse :: "'a option \<Rightarrow> 'a \<Rightarrow> 'a" where
  "orElse x d = (case x of Some v \<Rightarrow> v | None \<Rightarrow> d)"

definition mergeStatistics :: "CellStatistics \<Rightarrow> PartialStatistics \<Rightarrow> CellStatistics" where
  "mergeStatistics prev upd =
    \<lparr> lowest = (case upd_lowest upd of Some v \<Rightarrow> Some v | None \<Rightarrow> lowest prev),
      highest = (case upd_highest upd of Some v \<Rightarrow> Some v | None \<Rightarrow> highest prev),
      rain_low = orElse (upd_rain_low upd) (rain_low prev),
      rain_medium = orElse (upd_rain_medium upd) (rain_medium prev),
      rain_high = orElse (upd_rain_high upd) (rain_high prev),
      days_slippery_road = orElse (upd_slippery_road upd) (days_slippery_road prev),
      days_fog = orElse (upd_fog upd) (days_fog prev),
      days_cross_wind = orElse (upd_cross_wind upd) (days_cross_wind prev) \<rparr>"

definition addOrMergeStatistics :: "H3Index \<Rightarrow> PartialStatistics \<Rightarrow> Simulation \<Rightarrow> Simulation" where
  "addOrMergeStatistics h3Index upd s =
    (let prev = orElse (map_of (stats s) h3Index) generateInitialStatisticsPlaceholder
     in s\<lparr> stats := AList.update h3Index (mergeStatistics prev upd) (stats s) \<rparr>)"

subsection \<open>The reads\<close>



text \<open>
  \<open>getCell(h3Index, opts)\<close>: the result, \<open>None\<close> for \<open>undefined\<close>, and the engine after
  the call. \<open>opts\<close> is \<open>None\<close> when the argument is left out, and so is its field.
\<close>

record GetCellOptions =
  includeStatistics :: "bool option"

definition getCell ::
  "int \<Rightarrow> H3Index \<Rightarrow> GetCellOptions option \<Rightarrow> Simulation
    \<Rightarrow> (Cell \<times> CellStatistics option) option \<times> Simulation" where
  "getCell now h3Index opts s =
    (case map_of (snapshot s) h3Index of
       None \<Rightarrow> (None, s)
     | Some cell \<Rightarrow>
        (if (case opts of None \<Rightarrow> True | Some given \<Rightarrow> includeStatistics given \<noteq> Some True)
         then (Some (cell, None), s)
         else
          (case map_of (stats s) h3Index of
             Some st \<Rightarrow> (Some (cell, Some st), s)
           | None \<Rightarrow>
               (let (st, s) = generateInitialStatisticsForCell now cell s;
                    s = s\<lparr> stats := AList.update h3Index st (stats s) \<rparr>
                in (Some (cell, Some st), s)))))"

text \<open>
  A bounding box as it arrives: \<open>None\<close> for a missing argument, else an array of any
  length whose elements are numbers, \<open>NaN\<close> among them (what \<open>Number\<close> makes of a string
  that is not numeric). A comparison with \<open>NaN\<close> is false: the tests are \<open>js_ge\<close> and
  \<open>js_le\<close>.
\<close>

definition inBbox :: "jsnum list \<Rightarrow> rat \<Rightarrow> rat \<Rightarrow> bool" where
  "inBbox bbox lat lng =
    (let minLng = bbox ! 0; minLat = bbox ! 1; maxLng = bbox ! 2; maxLat = bbox ! 3
     in js_ge (Num lat) minLat \<and> js_le (Num lat) maxLat
        \<and> js_ge (Num lng) minLng \<and> js_le (Num lng) maxLng)"

fun snapshotScan ::
  "Runtime \<Rightarrow> jsnum list \<Rightarrow> (H3Index \<times> Cell) list \<Rightarrow> (H3Index \<times> Cell) list
    \<Rightarrow> (H3Index \<times> Cell) list" where
  "snapshotScan rt bbox [] out = out"
| "snapshotScan rt bbox ((h3Index, cell) # rest) out =
    (let (lat, lng) = cellToLatLng rt h3Index
     in snapshotScan rt bbox rest
          (if inBbox bbox lat lng then AList.update h3Index cell out else out))"

definition getSnapshotInBbox ::
  "Runtime \<Rightarrow> jsnum list option \<Rightarrow> Simulation \<Rightarrow> error + (H3Index \<times> Cell) list" where
  "getSnapshotInBbox rt bbox s =
    (case bbox of
       None \<Rightarrow> Inl InvalidBoundingBox
     | Some b \<Rightarrow>
         (if length b \<noteq> 4 then Inl InvalidBoundingBox
          else Inr (snapshotScan rt b (snapshot s) [])))"

fun hotspotScan ::
  "jsnum list \<Rightarrow> (string \<times> RiskHotspot) list \<Rightarrow> (string \<times> RiskHotspot) list
    \<Rightarrow> (string \<times> RiskHotspot) list" where
  "hotspotScan bbox [] out = out"
| "hotspotScan bbox ((id', hotspot) # rest) out =
    (let lat = latitude (hs_location hotspot); lng = longitude (hs_location hotspot)
     in hotspotScan bbox rest
          (if inBbox bbox lat lng then AList.update id' hotspot out else out))"

definition getHotspotsInBbox ::
  "jsnum list option \<Rightarrow> Simulation \<Rightarrow> error + (string \<times> RiskHotspot) list" where
  "getHotspotsInBbox bbox s =
    (case bbox of
       None \<Rightarrow> Inl InvalidBoundingBox
     | Some b \<Rightarrow>
         (if length b \<noteq> 4 then Inl InvalidBoundingBox
          else Inr (hotspotScan b (hotspots s) [])))"

subsection \<open>The states of an engine\<close>

text \<open>
  The states that an engine can be in: made by the constructor, then changed by the
  calls of its interface and by the callbacks of its two timers, in any order. A call
  that throws leaves no new state. \<open>accepted\<close> says which events the callers of
  \<open>pushRawEvent\<close> pass; the method itself takes every event.
\<close>

inductive reachable :: "Runtime \<Rightarrow> (RawEvent \<Rightarrow> bool) \<Rightarrow> Simulation \<Rightarrow> bool"
  for rt :: Runtime and accepted :: "RawEvent \<Rightarrow> bool" where
  constructed: "reachable rt accepted (newSimulation randomSeed opts)"
| cells: "reachable rt accepted s \<Longrightarrow> generateInitialCells rt now forceCount s = Inr s'
    \<Longrightarrow> reachable rt accepted s'"
| hotspots: "reachable rt accepted s
    \<Longrightarrow> generateInitialHotspots rt clock uuids forceCount s = Inr s'
    \<Longrightarrow> reachable rt accepted s'"
| started: "reachable rt accepted s \<Longrightarrow> reachable rt accepted (start id1 id2 s)"
| stopped: "reachable rt accepted s \<Longrightarrow> reachable rt accepted (stop s)"
| pushed: "reachable rt accepted s \<Longrightarrow> accepted event
    \<Longrightarrow> reachable rt accepted (pushRawEvent now h3Index event s)"
| produced: "reachable rt accepted s \<Longrightarrow> produceRandomRawEvent now s = Inr s'
    \<Longrightarrow> reachable rt accepted s'"
| flushed: "reachable rt accepted s \<Longrightarrow> applyRawAggToSnapshotBatch clock s = Inr s'
    \<Longrightarrow> reachable rt accepted s'"
| read: "reachable rt accepted s \<Longrightarrow> reachable rt accepted (snd (getCell now h3Index opts s))"
| merged: "reachable rt accepted s \<Longrightarrow> reachable rt accepted (addOrMergeStatistics h3Index upd s)"


definition isFinite :: "jsnum \<Rightarrow> bool" where
  "isFinite x = (case x of Num a \<Rightarrow> True | _ \<Rightarrow> False)"


text \<open>
  The last timestamp of an entry of the accumulator with which the flush can build its
  cell: 0 or \<open>NaN\<close>, for which the flush takes the current time, or a time value.
\<close>

definition timeOk :: "H3Index \<times> RawAgg \<Rightarrow> bool" where
  "timeOk entry \<longleftrightarrow>
     (case lastTs (snd entry) of
        Num a \<Rightarrow> \<bar>a\<bar> \<le> 8640000000000000
      | NaN \<Rightarrow> True
      | _ \<Rightarrow> False)"

text \<open>A hotspot without the three fields that come from the clock and from the UUIDs.\<close>

definition withoutClockAndUuid :: "RiskHotspot \<Rightarrow> RiskHotspot" where
  "withoutClockAndUuid h =
    h\<lparr> timeframe_first := 0, hs_timeframe_last := 0,
       hs_metadata := (hs_metadata h)\<lparr> hs_id := [] \<rparr> \<rparr>"

subsection \<open>Predicates of the proofs\<close>

text \<open>The distributions of a hotspot keep the keys that they start with.\<close>

definition keysKept :: "Distribution \<Rightarrow> bool" where
  "keysKept d \<longleftrightarrow> fst ` set (by_day d) = fst ` set initial_by_day
     \<and> fst ` set (by_time d) = fst ` set initial_by_time"

definition cellInRange :: "H3Index \<times> Cell \<Rightarrow> bool" where
  "cellInRange e \<longleftrightarrow> js_le (Num 0) (confidence (metadata (snd e)))
     \<and> js_le (confidence (metadata (snd e))) (Num 100)
     \<and> js_le (Num 1) (total_count (metadata (snd e)))"

text \<open>The two sums of an entry of the accumulator that the ranges depend on are finite.\<close>

definition sumsFinite :: "H3Index \<times> RawAgg \<Rightarrow> bool" where
  "sumsFinite e \<longleftrightarrow> isFinite (sumConfidence (snd e)) \<and> isFinite (sumCounts (snd e))"


subsection \<open>Inputs for the examples\<close>

text \<open>
  A platform whose functions are simple rational stand-ins, a clock, a source of UUIDs,
  and some events. The theorems below hold for every platform; the examples need one.
\<close>

definition exampleRuntime :: Runtime where
  "exampleRuntime =
    \<lparr> Math_sqrt = (\<lambda>x. x), Math_log = (\<lambda>x. x - 1), Math_cos = (\<lambda>x. 1), Math_sin = (\<lambda>x. x),
      Math_atan2 = (\<lambda>y x. y), Math_PI = 22 / 7,
      latLngToCell = (\<lambda>lat lng res. Some (toFixed 2 lat @ toFixed 2 lng)),
      cellToLatLng = (\<lambda>h3Index. if h3Index = ''8928308280fffff'' then (50, 14) else (49, 17)),
      utcYearStart = (\<lambda>t. 1672444800000) \<rparr>"

definition exampleClock :: "nat \<Rightarrow> int" where
  "exampleClock i = 1700000000000 + int i"

definition exampleUuids :: "nat \<Rightarrow> string" where
  "exampleUuids i = ''123e4567-e89b-42d3-a456-42661417400'' @ digitsOf (i mod 10)"

definition otherUuids :: "nat \<Rightarrow> string" where
  "otherUuids i = ''9b2f0c1e-7d4a-4c1b-8f3e-0a1b2c3d4e5'' @ digitsOf (i mod 10)"

definition exampleSimulation :: Simulation where
  "exampleSimulation = newSimulation 7 None"

definition onlyTemperature :: "rat \<Rightarrow> RawEvent" where
  "onlyTemperature t = \<lparr> ev_temperature = Num t, ev_confidence = None, ev_count = None,
     ev_fog = None, ev_cross_wind = None, ev_rain_intensity = None,
     ev_road_condition = None, ev_timestamp = None \<rparr>"

definition weatherEvent :: "RainIntensity \<Rightarrow> RoadCondition \<Rightarrow> RawEvent" where
  "weatherEvent ri rc = \<lparr> ev_temperature = Num 4, ev_confidence = None, ev_count = None,
     ev_fog = None, ev_cross_wind = None, ev_rain_intensity = Some ri,
     ev_road_condition = Some rc, ev_timestamp = None \<rparr>"

definition otherEvent :: RawEvent where
  "otherEvent = \<lparr> ev_temperature = Num 3, ev_confidence = Some (Num 55),
     ev_count = Some (Num 2), ev_fog = Some True, ev_cross_wind = None,
     ev_rain_intensity = Some HIGH, ev_road_condition = Some WET,
     ev_timestamp = Some (Num 1700000000000) \<rparr>"



text \<open>The engine after a call that returned; a call that threw leaves the first engine.\<close>

definition stateOf :: "error + Simulation \<Rightarrow> Simulation" where
  "stateOf result = (case result of Inr s \<Rightarrow> s | Inl e \<Rightarrow> exampleSimulation)"

text \<open>Several calls of \<open>pushRawEvent\<close> in a row, each with its time, cell and event.\<close>

definition pushAll :: "(int \<times> H3Index \<times> RawEvent) list \<Rightarrow> Simulation \<Rightarrow> Simulation" where
  "pushAll evs s = foldl (\<lambda>st (t, k, e). pushRawEvent t k e st) s evs"

text \<open>
  Cell \<open>a\<close> with mean rain score 14/5 and mean road score 13/5, cell \<open>b\<close> with 1 and 9/10,
  cell \<open>c\<close> with mean rain score 7/2.
\<close>

definition classificationRun :: Simulation where
  "classificationRun = pushAll
     [(1, ''a'', weatherEvent HIGH SLIPPERY_ICE), (2, ''a'', weatherEvent HIGH SLIPPERY_ICE),
      (3, ''a'', weatherEvent HIGH SLIPPERY_ICE), (4, ''a'', weatherEvent MEDIUM SLIPPERY),
      (5, ''a'', weatherEvent NONE SLIPPERY),
      (6, ''b'', weatherEvent LOW DRY), (7, ''b'', weatherEvent LOW WET),
      (8, ''b'', weatherEvent LOW WET), (9, ''b'', weatherEvent LOW WET),
      (10, ''b'', weatherEvent LOW WET), (11, ''b'', weatherEvent LOW WET),
      (12, ''b'', weatherEvent LOW WET), (13, ''b'', weatherEvent LOW WET),
      (14, ''b'', weatherEvent LOW WET), (15, ''b'', weatherEvent LOW WET),
      (16, ''c'', weatherEvent HIGH DRY), (17, ''c'', weatherEvent HIGH DRY),
      (18, ''c'', weatherEvent HIGH DRY), (19, ''c'', weatherEvent MEDIUM DRY)]
     exampleSimulation"


text \<open>An engine whose snapshot holds the cell \<open>8928308280fffff\<close>, at latitude 50.\<close>

definition bboxRun :: Simulation where
  "bboxRun = stateOf (applyRawAggToSnapshotBatch exampleClock
     (pushRawEvent 1700000000000 ''8928308280fffff'' (onlyTemperature 10) exampleSimulation))"

definition boundaryBox :: "jsnum list" where
  "boundaryBox = [Num 13, Num 49, Num 15, Num 50]"

definition nanBox :: "jsnum list" where
  "nanBox = [NaN, Num 49, Num 15, Num 50]"

definition withStatistics :: "GetCellOptions option" where
  "withStatistics = Some \<lparr> includeStatistics = Some True \<rparr>"

text \<open>
  Three runs of \<open>generateInitialHotspots\<close> for one hotspot on the same engine, hence with
  the same seed: the second with other UUIDs, the third a minute later.
\<close>

definition laterClock :: "nat \<Rightarrow> int" where
  "laterClock i = exampleClock i + 60000"

definition generatedRun :: Simulation where
  "generatedRun = stateOf
     (generateInitialHotspots exampleRuntime exampleClock exampleUuids (Some 1) exampleSimulation)"

definition otherRun :: Simulation where
  "otherRun = stateOf
     (generateInitialHotspots exampleRuntime exampleClock otherUuids (Some 1) exampleSimulation)"

definition laterRun :: Simulation where
  "laterRun = stateOf
     (generateInitialHotspots exampleRuntime laterClock exampleUuids (Some 1) exampleSimulation)"

text \<open>The engine with that hotspot and, after an event and a flush, with one cell.\<close>

definition rangeRun :: Simulation where
  "rangeRun = stateOf (applyRawAggToSnapshotBatch exampleClock
     (pushRawEvent 1700000000000 ''8928308280fffff'' otherEvent generatedRun))"



section \<open>Properties\<close>

subsection \<open>Association lists and numbers\<close>

lemma floor_rat_numeral [simp]:
  "\<lfloor>(numeral a :: rat) / numeral b\<rfloor> = numeral a div numeral b"
  using floor_divide_of_int_eq [where 'a = rat, of "numeral a" "numeral b"] by simp

lemma keys_update: "fst ` set (AList.update k v al) = insert k (fst ` set al)"
  by (induction al) auto

lemma set_update_subset: "set (AList.update k v al) \<subseteq> insert (k, v) (set al)"
  by (induction al) auto

lemma keys_foldl_update:
  "fst ` set (foldl (\<lambda>obj i. AList.update (f i) v obj) acc xs) = fst ` set acc \<union> f ` set xs"
  by (induction xs arbitrary: acc) (auto simp: keys_update)

subsection \<open>The flush\<close>

lemma cellOfAgg_cases:
  "cellOfAgg old now later k agg = Inl RangeError \<and> \<not> timeOk (k, agg)
   \<or> (\<exists>c. cellOfAgg old now later k agg = Inr c) \<and> timeOk (k, agg)"
  by (cases "lastTs agg")
    (simp_all add: cellOfAgg_def timeOk_def falsy_def toISOString_def Let_def)

lemma cellOfAgg_fields:
  assumes "cellOfAgg old now later k agg = Inr c"
  shows "confidence (metadata c) = js_max (Num 0) (js_min (Num 100)
           (js_round (js_div (sumConfidence agg) (Num (rat_of_nat (max 1 (count agg)))))))"
    and "total_count (metadata c) = js_max (Num 1) (js_round (sumCounts agg))"
    and "temperature (environment c) = js_div (js_round (js_mul
           (js_div (sumTemp agg) (Num (rat_of_nat (max 1 (count agg))))) (Num 10))) (Num 10)"
    and "rain_intensity (conditions (environment c)) =
           (let m = rat_of_nat (rainScore agg) / rat_of_nat (max 1 (count agg))
            in if 3 \<le> m then HIGH else if 6 / 5 \<le> m then MEDIUM
               else if 3 / 5 \<le> m then LOW else NONE)"
    and "road_condition (conditions (environment c)) =
           (let m = rat_of_nat (roadScore agg) / rat_of_nat (max 1 (count agg))
            in if 5 / 2 \<le> m then SLIPPERY_ICE else if 9 / 5 \<le> m then SLIPPERY
               else if 4 / 5 \<le> m then WET else DRY)"
proof -
  obtain t where
    "(if falsy (lastTs agg) then Inr now else toISOString (lastTs agg)) = Inr t"
    using assms by (cases "if falsy (lastTs agg) then Inr now else toISOString (lastTs agg)")
      (simp_all add: cellOfAgg_def Let_def)
  with assms show "confidence (metadata c) = js_max (Num 0) (js_min (Num 100)
           (js_round (js_div (sumConfidence agg) (Num (rat_of_nat (max 1 (count agg)))))))"
    and "total_count (metadata c) = js_max (Num 1) (js_round (sumCounts agg))"
    and "temperature (environment c) = js_div (js_round (js_mul
           (js_div (sumTemp agg) (Num (rat_of_nat (max 1 (count agg))))) (Num 10))) (Num 10)"
    and "rain_intensity (conditions (environment c)) =
           (let m = rat_of_nat (rainScore agg) / rat_of_nat (max 1 (count agg))
            in if 3 \<le> m then HIGH else if 6 / 5 \<le> m then MEDIUM
               else if 3 / 5 \<le> m then LOW else NONE)"
    and "road_condition (conditions (environment c)) =
           (let m = rat_of_nat (roadScore agg) / rat_of_nat (max 1 (count agg))
            in if 5 / 2 \<le> m then SLIPPERY_ICE else if 9 / 5 \<le> m then SLIPPERY
               else if 4 / 5 \<le> m then WET else DRY)"
    by (auto simp: cellOfAgg_def Let_def)
qed


lemma flushLoop_other:
  "flushLoop old clock i entries acc = Inr out \<Longrightarrow> k \<notin> fst ` set entries
   \<Longrightarrow> map_of out k = map_of acc k"
proof (induction entries arbitrary: i acc)
  case Nil
  then show ?case by simp
next
  case (Cons e entries)
  obtain k' agg where e: "e = (k', agg)" by (cases e)
  from Cons.prems have "k \<noteq> k'" and k: "k \<notin> fst ` set entries" by (auto simp: e)
  from Cons.prems obtain c where
    "flushLoop old clock (i + 1) entries (AList.update k' c acc) = Inr out"
    unfolding e by (auto split: sum.splits)
  from Cons.IH [OF this k] \<open>k \<noteq> k'\<close> show ?case
    by (simp add: update_conv')
qed

lemma flushLoop_entry:
  "flushLoop old clock i entries acc = Inr out \<Longrightarrow> distinct (map fst entries)
   \<Longrightarrow> map_of entries k = Some agg
   \<Longrightarrow> \<exists>j c. cellOfAgg old (clock 0) (clock j) k agg = Inr c \<and> map_of out k = Some c"
proof (induction entries arbitrary: i acc)
  case Nil
  then show ?case by simp
next
  case (Cons e entries)
  obtain k' agg' where e: "e = (k', agg')" by (cases e)
  from Cons.prems(1) obtain c where
    c: "cellOfAgg old (clock 0) (clock (i + 1)) k' agg' = Inr c"
    and rest: "flushLoop old clock (i + 1) entries (AList.update k' c acc) = Inr out"
    unfolding e by (auto split: sum.splits)
  show ?case
  proof (cases "k' = k")
    case True
    with Cons.prems have "agg' = agg" and "k \<notin> fst ` set entries" by (auto simp: e)
    with flushLoop_other [OF rest] c True show ?thesis
      by (auto simp: update_conv')
  next
    case False
    with Cons.prems have "distinct (map fst entries)" and "map_of entries k = Some agg"
      by (auto simp: e)
    from Cons.IH [OF rest this] show ?thesis .
  qed
qed

lemma flushLoop_returns:
  "list_all timeOk entries \<Longrightarrow> \<exists>out. flushLoop old clock i entries acc = Inr out"
proof (induction entries arbitrary: i acc)
  case Nil
  then show ?case by simp
next
  case (Cons e entries)
  obtain k agg where e: "e = (k, agg)" by (cases e)
  from Cons.prems have "timeOk (k, agg)" and "list_all timeOk entries" by (simp_all add: e)
  with cellOfAgg_cases [of old "clock 0" "clock (i + 1)" k agg] Cons.IH show ?case
    unfolding e by auto
qed


lemma flush_returns:
  "list_all timeOk (rawAgg s) \<Longrightarrow> \<exists>s'. applyRawAggToSnapshotBatch clock s = Inr s'"
  using flushLoop_returns [of "rawAgg s" "snapshot s" clock 0 "[]"]
  by (auto simp: applyRawAggToSnapshotBatch_def)


lemma flush_result:
  assumes "applyRawAggToSnapshotBatch clock s = Inr s'"
  obtains out where "flushLoop (snapshot s) clock 0 (rawAgg s) [] = Inr out"
    and "s' = s\<lparr> snapshot := out, rawAgg := [] \<rparr>"
  using assms by (auto simp: applyRawAggToSnapshotBatch_def split: sum.splits)

lemma flush_single:
  assumes "rawAgg s = [(k, agg)]" and "timeOk (k, agg)"
  shows "\<exists>c. cellOfAgg (snapshot s) (clock 0) (clock 1) k agg = Inr c
    \<and> applyRawAggToSnapshotBatch clock s = Inr (s\<lparr> snapshot := [(k, c)], rawAgg := [] \<rparr>)"
  using cellOfAgg_cases [of "snapshot s" "clock 0" "clock 1" k agg] assms
  by (auto simp: applyRawAggToSnapshotBatch_def)


lemma distinct_push:
  "distinct (map fst (rawAgg s)) \<Longrightarrow> distinct (map fst (rawAgg (pushRawEvent now k e s)))"
  by (simp add: pushRawEvent_def Let_def distinct_update)



lemma first_event_bucket:
  "addEvent t (onlyTemperature 10) emptyBucket =
    \<lparr> sumTemp = Num 10, count = 1, lastTs = js_max (Num 0) (Num (rat_of_int t)),
      sumConfidence = Num 80, sumCounts = Num 1, fogVotes = 0, crossWindVotes = 0,
      rainScore = 0, roadScore = 0 \<rparr>"
  by (simp add: addEvent_def onlyTemperature_def emptyBucket_def Let_def)


lemma flushed_first_event:
  assumes "rawAgg s = []" and "timeOk (k, addEvent now e emptyBucket)"
  shows "\<exists>c. cellOfAgg (snapshot s) (clock 0) (clock 1) k (addEvent now e emptyBucket) = Inr c
    \<and> stateOf (applyRawAggToSnapshotBatch clock (pushRawEvent now k e s))
        = s\<lparr> snapshot := [(k, c)], rawAgg := [] \<rparr>"
proof -
  let ?s = "pushRawEvent now k e s"
  have acc: "rawAgg ?s = [(k, addEvent now e emptyBucket)]"
    by (simp add: pushRawEvent_def assms(1))
  from flush_single [OF acc assms(2), of clock] obtain c where
    c: "cellOfAgg (snapshot ?s) (clock 0) (clock 1) k (addEvent now e emptyBucket) = Inr c"
    and run: "applyRawAggToSnapshotBatch clock ?s
      = Inr (?s\<lparr> snapshot := [(k, c)], rawAgg := [] \<rparr>)"
    by blast
  have "stateOf (applyRawAggToSnapshotBatch clock ?s) = s\<lparr> snapshot := [(k, c)], rawAgg := [] \<rparr>"
    unfolding run stateOf_def by (simp add: pushRawEvent_def)
  with c show ?thesis
    by (intro exI [of _ c]) (simp add: pushRawEvent_def)
qed

lemma exampleSimulation_empty:
  "rawAgg exampleSimulation = []" "snapshot exampleSimulation = []"
  by (simp_all add: exampleSimulation_def newSimulation_def Let_def)

lemma classificationRun_rawAgg:
  "rawAgg classificationRun =
    [(''a'', \<lparr> sumTemp = Num 20, count = 5, lastTs = Num 5, sumConfidence = Num 400,
        sumCounts = Num 5, fogVotes = 0, crossWindVotes = 0, rainScore = 14,
        roadScore = 13 \<rparr>),
     (''b'', \<lparr> sumTemp = Num 40, count = 10, lastTs = Num 15, sumConfidence = Num 800,
        sumCounts = Num 10, fogVotes = 0, crossWindVotes = 0, rainScore = 10,
        roadScore = 9 \<rparr>),
     (''c'', \<lparr> sumTemp = Num 16, count = 4, lastTs = Num 19, sumConfidence = Num 320,
        sumCounts = Num 4, fogVotes = 0, crossWindVotes = 0, rainScore = 14,
        roadScore = 0 \<rparr>)]"
  by (simp add: classificationRun_def pushAll_def pushRawEvent_def addEvent_def
      weatherEvent_def emptyBucket_def exampleSimulation_def newSimulation_def Let_def
      js_max_def)





text \<open>
  Claim C5. The flush classifies a cell by its mean scores: rain intensity HIGH from 3.0,
  MEDIUM from 1.2, LOW from 0.6 and NONE below; road condition SLIPPERY\_ICE from 2.5,
  SLIPPERY from 1.8, WET from 0.8 and DRY below. This holds for the cell of every entry
  in the snapshot of a flush that returns, and a flush returns when the last timestamp
  of every entry is 0, \<open>NaN\<close> or a time value. The example after the theorem has the
  means 3.5 (HIGH), 1.0 (LOW), 2.6 (SLIPPERY\_ICE) and 0.9 (WET).
\<close>

theorem flush_classification:
  assumes "distinct (map fst (rawAgg s))" and "map_of (rawAgg s) k = Some agg"
    and "1 \<le> count agg"
  shows "(\<forall>s'. applyRawAggToSnapshotBatch clock s = Inr s'
      \<longrightarrow> (\<exists>c. map_of (snapshot s') k = Some c
        \<and> rain_intensity (conditions (environment c)) =
            (let m = rat_of_nat (rainScore agg) / rat_of_nat (count agg)
             in if 3 \<le> m then HIGH else if 6 / 5 \<le> m then MEDIUM
                else if 3 / 5 \<le> m then LOW else NONE)
        \<and> road_condition (conditions (environment c)) =
            (let m = rat_of_nat (roadScore agg) / rat_of_nat (count agg)
             in if 5 / 2 \<le> m then SLIPPERY_ICE else if 9 / 5 \<le> m then SLIPPERY
                else if 4 / 5 \<le> m then WET else DRY)))
    \<and> (list_all timeOk (rawAgg s) \<longrightarrow> (\<exists>s'. applyRawAggToSnapshotBatch clock s = Inr s'))"
proof -
  have m: "max 1 (count agg) = count agg"
    using assms(3) by simp
  have "\<exists>c. map_of (snapshot s') k = Some c
        \<and> rain_intensity (conditions (environment c)) =
            (let m = rat_of_nat (rainScore agg) / rat_of_nat (count agg)
             in if 3 \<le> m then HIGH else if 6 / 5 \<le> m then MEDIUM
                else if 3 / 5 \<le> m then LOW else NONE)
        \<and> road_condition (conditions (environment c)) =
            (let m = rat_of_nat (roadScore agg) / rat_of_nat (count agg)
             in if 5 / 2 \<le> m then SLIPPERY_ICE else if 9 / 5 \<le> m then SLIPPERY
                else if 4 / 5 \<le> m then WET else DRY)"
    if run: "applyRawAggToSnapshotBatch clock s = Inr s'" for s'
  proof -
    from run obtain out where
      out: "flushLoop (snapshot s) clock 0 (rawAgg s) [] = Inr out"
      and s': "s' = s\<lparr> snapshot := out, rawAgg := [] \<rparr>"
      by (rule flush_result)
    from flushLoop_entry [OF out assms(1,2)] obtain j c where
      c: "cellOfAgg (snapshot s) (clock 0) (clock j) k agg = Inr c"
      and "map_of out k = Some c"
      by blast
    with cellOfAgg_fields(4,5) [OF c] show ?thesis
      unfolding m by (simp add: s')
  qed
  with flush_returns [of s clock] show ?thesis
    by blast
qed

theorem flush_classification_witness:
  "distinct (map fst (rawAgg classificationRun))
   \<and> list_all timeOk (rawAgg classificationRun)
   \<and> (\<exists>agg. map_of (rawAgg classificationRun) ''c'' = Some agg \<and> 1 \<le> count agg
        \<and> rat_of_nat (rainScore agg) / rat_of_nat (count agg) = 7 / 2)
   \<and> (\<exists>agg. map_of (rawAgg classificationRun) ''b'' = Some agg \<and> 1 \<le> count agg
        \<and> rat_of_nat (rainScore agg) / rat_of_nat (count agg) = 1
        \<and> rat_of_nat (roadScore agg) / rat_of_nat (count agg) = 9 / 10)
   \<and> (\<exists>agg. map_of (rawAgg classificationRun) ''a'' = Some agg \<and> 1 \<le> count agg
        \<and> rat_of_nat (roadScore agg) / rat_of_nat (count agg) = 13 / 5)
   \<and> (\<exists>s'. applyRawAggToSnapshotBatch exampleClock classificationRun = Inr s'
        \<and> (\<exists>c. map_of (snapshot s') ''c'' = Some c
              \<and> rain_intensity (conditions (environment c)) = HIGH)
        \<and> (\<exists>c. map_of (snapshot s') ''b'' = Some c
              \<and> rain_intensity (conditions (environment c)) = LOW
              \<and> road_condition (conditions (environment c)) = WET)
        \<and> (\<exists>c. map_of (snapshot s') ''a'' = Some c
              \<and> road_condition (conditions (environment c)) = SLIPPERY_ICE))"
proof -
  have d: "distinct (map fst (rawAgg classificationRun))"
    by (simp add: classificationRun_rawAgg)
  have ok: "list_all timeOk (rawAgg classificationRun)"
    by (simp add: classificationRun_rawAgg timeOk_def)
  have a: "map_of (rawAgg classificationRun) ''a'' = Some
      \<lparr> sumTemp = Num 20, count = 5, lastTs = Num 5, sumConfidence = Num 400,
        sumCounts = Num 5, fogVotes = 0, crossWindVotes = 0, rainScore = 14,
        roadScore = 13 \<rparr>"
    by (simp add: classificationRun_rawAgg)
  have b: "map_of (rawAgg classificationRun) ''b'' = Some
      \<lparr> sumTemp = Num 40, count = 10, lastTs = Num 15, sumConfidence = Num 800,
        sumCounts = Num 10, fogVotes = 0, crossWindVotes = 0, rainScore = 10,
        roadScore = 9 \<rparr>"
    by (simp add: classificationRun_rawAgg)
  have c: "map_of (rawAgg classificationRun) ''c'' = Some
      \<lparr> sumTemp = Num 16, count = 4, lastTs = Num 19, sumConfidence = Num 320,
        sumCounts = Num 4, fogVotes = 0, crossWindVotes = 0, rainScore = 14,
        roadScore = 0 \<rparr>"
    by (simp add: classificationRun_rawAgg)
  have ha: "\<exists>agg. map_of (rawAgg classificationRun) ''a'' = Some agg \<and> 1 \<le> count agg
        \<and> rat_of_nat (roadScore agg) / rat_of_nat (count agg) = 13 / 5"
    unfolding a by simp
  have hb: "\<exists>agg. map_of (rawAgg classificationRun) ''b'' = Some agg \<and> 1 \<le> count agg
        \<and> rat_of_nat (rainScore agg) / rat_of_nat (count agg) = 1
        \<and> rat_of_nat (roadScore agg) / rat_of_nat (count agg) = 9 / 10"
    unfolding b by simp
  have hc: "\<exists>agg. map_of (rawAgg classificationRun) ''c'' = Some agg \<and> 1 \<le> count agg
        \<and> rat_of_nat (rainScore agg) / rat_of_nat (count agg) = 7 / 2"
    unfolding c by simp
  obtain s' where run: "applyRawAggToSnapshotBatch exampleClock classificationRun = Inr s'"
    using flush_classification [OF d a, of exampleClock] ok by auto
  have ra: "\<exists>c. map_of (snapshot s') ''a'' = Some c
        \<and> road_condition (conditions (environment c)) = SLIPPERY_ICE"
    using flush_classification [OF d a, of exampleClock] run by auto
  have rb: "\<exists>c. map_of (snapshot s') ''b'' = Some c
        \<and> rain_intensity (conditions (environment c)) = LOW
        \<and> road_condition (conditions (environment c)) = WET"
    using flush_classification [OF d b, of exampleClock] run by auto
  have rc: "\<exists>c. map_of (snapshot s') ''c'' = Some c
        \<and> rain_intensity (conditions (environment c)) = HIGH"
    using flush_classification [OF d c, of exampleClock] run by auto
  show ?thesis
    using d ok ha hb hc run ra rb rc by blast
qed





subsection \<open>The draws and the distributions of a hotspot\<close>

lemma unit_interval_word:
  "0 \<le> rat_of_int (uint (w :: 32 word)) / 4294967296 \<and> rat_of_int (uint w) / 4294967296 < 1"
proof -
  have "0 \<le> uint w" and "uint w < 4294967296"
    using uint_bounded [of w] by simp_all
  then have "0 \<le> rat_of_int (uint w)" and "rat_of_int (uint w) < rat_of_int 4294967296"
    by (simp_all only: of_int_0_le_iff of_int_less_iff)
  then show ?thesis
    by (simp del: of_int_uint)
qed

lemma seededRand_call_range:
  "0 \<le> fst (seededRand_call r) \<and> fst (seededRand_call r) < 1"
  unfolding seededRand_call_def Let_def fst_conv by (rule unit_interval_word)

lemma draw_range:
  assumes "seededRand_call r = (u, r')"
  shows "0 \<le> u" and "u < 1"
  using seededRand_call_range [of r] assms by simp_all

lemma floor_scaled:
  assumes "0 \<le> u" and "u < 1" and "0 < n"
  shows "0 \<le> Math_floor (u * rat_of_int n)" and "Math_floor (u * rat_of_int n) < n"
proof -
  have "0 \<le> u * rat_of_int n"
    using assms by simp
  then show "0 \<le> Math_floor (u * rat_of_int n)"
    by (simp add: Math_floor_def)
  have "u * rat_of_int n < rat_of_int n"
    using assms by simp
  then show "Math_floor (u * rat_of_int n) < n"
    by (simp add: Math_floor_def floor_less_iff)
qed

lemma js_add_assoc: "js_add (js_add a b) c = js_add a (js_add b c)"
  by (cases a; cases b; cases c) simp_all

lemma js_add_commute: "js_add a b = js_add b a"
  by (cases a; cases b) simp_all

lemma sumValues_Cons: "sumValues ((k, v) # obj) = js_add v (sumValues obj)"
  by (simp add: sumValues_def)

lemma sumValues_update_present:
  "map_of obj k = Some v \<Longrightarrow>
   sumValues (AList.update k (js_add v (Num 1)) obj) = js_add (sumValues obj) (Num 1)"
proof (induction obj)
  case Nil
  then show ?case by simp
next
  case (Cons e obj)
  obtain k' v' where e: "e = (k', v')" by (cases e)
  show ?case
  proof (cases "k' = k")
    case True
    with Cons.prems have "v' = v" by (simp add: e)
    with True show ?thesis
      by (simp add: e sumValues_Cons js_add_assoc js_add_commute [of "Num 1"])
  next
    case False
    with Cons show ?thesis
      by (simp add: e sumValues_Cons js_add_assoc)
  qed
qed

lemma sumValues_update_absent:
  "map_of obj k = None \<Longrightarrow> sumValues (AList.update k v obj) = js_add (sumValues obj) v"
proof (induction obj)
  case Nil
  then show ?case by (cases v) (simp_all add: sumValues_def)
next
  case (Cons e obj)
  obtain k' v' where e: "e = (k', v')" by (cases e)
  from Cons show ?case
    by (simp add: e sumValues_Cons js_add_assoc split: if_splits)
qed

lemma sumValues_countUp: "sumValues (countUp k obj) = js_add (sumValues obj) (Num 1)"
proof (cases "map_of obj k")
  case None
  then show ?thesis
    by (simp add: countUp_def sumValues_update_absent)
next
  case (Some v)
  then show ?thesis
    by (simp add: countUp_def sumValues_update_present)
qed

lemma sumValues_postIncrement:
  assumes "k \<in> fst ` set obj"
  shows "sumValues (postIncrement k obj) = js_add (sumValues obj) (Num 1)"
    and "fst ` set (postIncrement k obj) = fst ` set obj"
proof -
  from assms obtain v where "map_of obj k = Some v"
    by (metis domD dom_map_of_conv_image_fst)
  then show "sumValues (postIncrement k obj) = js_add (sumValues obj) (Num 1)"
    by (simp add: postIncrement_def sumValues_update_present)
  show "fst ` set (postIncrement k obj) = fst ` set obj"
    using assms by (auto simp: postIncrement_def keys_update)
qed

lemma dayName_known:
  assumes "0 \<le> i" and "i < 7"
  shows "dayName i \<in> fst ` set initial_by_day"
proof -
  have "nat i < length dayNames"
    using assms by (simp add: dayNames_def)
  then have "dayNames ! nat i \<in> set dayNames"
    by (rule nth_mem)
  moreover have "fst ` set initial_by_day = set dayNames"
    by (force simp: initial_by_day_def)
  ultimately show ?thesis
    using assms by (simp add: dayName_def dayNames_def)
qed

lemma timeStr_known:
  assumes "0 \<le> hour" and "hour < 24" and "minute = 0 \<or> minute = 30"
  shows "timeStr hour minute \<in> fst ` set initial_by_time"
proof -
  define f where "f = (\<lambda>i :: int. timeStr (i div 2) ((i mod 2) * 30))"
  define i where "i = 2 * hour + minute div 30"
  have "i div 2 = hour" and "(i mod 2) * 30 = minute"
    using assms(3) unfolding i_def by auto
  then have "f i = timeStr hour minute"
    by (simp add: f_def)
  moreover have "i \<in> set [0..47]"
    using assms unfolding i_def by auto
  ultimately have "timeStr hour minute \<in> f ` set [0..47]"
    by (metis imageI)
  moreover have "fst ` set initial_by_time = f ` set [0..47]"
    unfolding initial_by_time_def f_def keys_foldl_update by simp
  ultimately show ?thesis
    by simp
qed

lemma floor5: "0 \<le> u \<Longrightarrow> u < 1 \<Longrightarrow> 0 \<le> Math_floor (u * 5) \<and> Math_floor (u * 5) < 5"
  using floor_scaled [of u 5] by simp
lemma floor2: "0 \<le> u \<Longrightarrow> u < 1 \<Longrightarrow> 0 \<le> Math_floor (u * 2) \<and> Math_floor (u * 2) < 2"
  using floor_scaled [of u 2] by simp
lemma floor3: "0 \<le> u \<Longrightarrow> u < 1 \<Longrightarrow> 0 \<le> Math_floor (u * 3) \<and> Math_floor (u * 3) < 3"
  using floor_scaled [of u 3] by simp
lemma floor6: "0 \<le> u \<Longrightarrow> u < 1 \<Longrightarrow> 0 \<le> Math_floor (u * 6) \<and> Math_floor (u * 6) < 6"
  using floor_scaled [of u 6] by simp
lemma floor24: "0 \<le> u \<Longrightarrow> u < 1 \<Longrightarrow> 0 \<le> Math_floor (u * 24) \<and> Math_floor (u * 24) < 24"
  using floor_scaled [of u 24] by simp

lemma statisticsRound_shape:
  assumes "statisticsRound ti r d = (d', r')"
  shows "\<exists>week dayIdx hour minute.
      d' = \<lparr> by_week = countUp week (by_week d),
             by_day = postIncrement (dayName dayIdx) (by_day d),
             by_time = postIncrement (timeStr hour minute) (by_time d) \<rparr>
      \<and> 0 \<le> dayIdx \<and> dayIdx < 7 \<and> 0 \<le> hour \<and> hour < 24 \<and> (minute = 0 \<or> minute = 30)"
proof -
  obtain u1 r1 where d1: "seededRand_call r = (u1, r1)" by (cases "seededRand_call r")
  obtain dayRoll r2 where d2: "seededRand_call r1 = (dayRoll, r2)" by (cases "seededRand_call r1")
  obtain u3 r3 where d3: "seededRand_call r2 = (u3, r3)" by (cases "seededRand_call r2")
  obtain timeRoll r4 where d4: "seededRand_call r3 = (timeRoll, r4)" by (cases "seededRand_call r3")
  obtain u5 r5 where d5: "seededRand_call r4 = (u5, r5)" by (cases "seededRand_call r4")
  obtain u6 r6 where d6: "seededRand_call r5 = (u6, r6)" by (cases "seededRand_call r5")
  obtain u7 r7 where d7: "seededRand_call r6 = (u7, r7)" by (cases "seededRand_call r6")
  define dayIdx where
    "dayIdx = (if dayRoll < 7 / 10 then Math_floor (u3 * 5) else 5 + Math_floor (u3 * 2))"
  have day: "0 \<le> dayIdx \<and> dayIdx < 7"
    using floor5 [of u3] floor2 [of u3] draw_range [OF d3] by (auto simp: dayIdx_def)
  note f5 = floor2 [of u6] floor3 [of u6] floor6 [of u5] floor24 [of u5]
      draw_range [OF d5] draw_range [OF d6]
  note defs = statisticsRound_def Let_def prod.case d1 d2 d3 d4 d5 d6 d7
  consider (rush) "ti \<ge> 3 \<and> timeRoll < 6 / 10"
    | (night) "\<not> (ti \<ge> 3 \<and> timeRoll < 6 / 10)" "ti \<ge> 4 \<and> timeRoll < 8 / 10"
    | (any) "\<not> (ti \<ge> 3 \<and> timeRoll < 6 / 10)" "\<not> (ti \<ge> 4 \<and> timeRoll < 8 / 10)"
    by blast
  then show ?thesis
  proof cases
    case rush
    define hour where
      "hour = (if u5 < 1 / 2 then 7 + Math_floor (u6 * 2) else 16 + Math_floor (u6 * 3))"
    have "d' = \<lparr> by_week = countUp (1 + Math_floor (u1 * 52)) (by_week d),
                    by_day = postIncrement (dayName dayIdx) (by_day d),
                    by_time = postIncrement (timeStr hour (if u7 < 1 / 2 then 0 else 30))
                      (by_time d) \<rparr>"
      using assms unfolding defs if_P [OF rush] dayIdx_def hour_def by simp
    moreover have "0 \<le> hour \<and> hour < 24"
      using f5 by (auto simp: hour_def)
    ultimately show ?thesis
      using day by (intro exI [of _ "(if u7 < 1 / 2 then 0 else 30)"] exI conjI) auto
  next
    case night
    define hour where
      "hour = (if 22 + Math_floor (u5 * 6) \<ge> 24 then 22 + Math_floor (u5 * 6) - 24
               else 22 + Math_floor (u5 * 6))"
    have "d' = \<lparr> by_week = countUp (1 + Math_floor (u1 * 52)) (by_week d),
                    by_day = postIncrement (dayName dayIdx) (by_day d),
                    by_time = postIncrement (timeStr hour (if u6 < 1 / 2 then 0 else 30))
                      (by_time d) \<rparr>"
      using assms unfolding defs if_not_P [OF night(1)] if_P [OF night(2)] dayIdx_def hour_def
      by simp
    moreover have "0 \<le> hour \<and> hour < 24"
      using f5 by (auto simp: hour_def)
    ultimately show ?thesis
      using day by (intro exI [of _ "(if u6 < 1 / 2 then 0 else 30)"] exI conjI) auto
  next
    case any
    have "d' = \<lparr> by_week = countUp (1 + Math_floor (u1 * 52)) (by_week d),
                    by_day = postIncrement (dayName dayIdx) (by_day d),
                    by_time = postIncrement
                      (timeStr (Math_floor (u5 * 24)) (if u6 < 1 / 2 then 0 else 30))
                      (by_time d) \<rparr>"
      using assms unfolding defs if_not_P [OF any(1)] if_not_P [OF any(2)] dayIdx_def
      by simp
    moreover have "0 \<le> Math_floor (u5 * 24) \<and> Math_floor (u5 * 24) < 24"
      using f5 by auto
    ultimately show ?thesis
      using day by (intro exI [of _ "(if u6 < 1 / 2 then 0 else 30)"] exI conjI) auto
  qed
qed

lemma statisticsRound_counts:
  assumes "statisticsRound ti r d = (d', r')" and "keysKept d"
  shows "keysKept d'"
    and "sumValues (by_week d') = js_add (sumValues (by_week d)) (Num 1)"
    and "sumValues (by_day d') = js_add (sumValues (by_day d)) (Num 1)"
    and "sumValues (by_time d') = js_add (sumValues (by_time d)) (Num 1)"
proof -
  obtain week dayIdx hour minute where
    d': "d' = \<lparr> by_week = countUp week (by_week d),
             by_day = postIncrement (dayName dayIdx) (by_day d),
             by_time = postIncrement (timeStr hour minute) (by_time d) \<rparr>"
    and r: "0 \<le> dayIdx" "dayIdx < 7" "0 \<le> hour" "hour < 24" "minute = 0 \<or> minute = 30"
    using statisticsRound_shape [OF assms(1)] by blast
  have day: "dayName dayIdx \<in> fst ` set (by_day d)"
    using assms(2) r by (simp add: keysKept_def dayName_known)
  have time: "timeStr hour minute \<in> fst ` set (by_time d)"
    using assms(2) r by (simp add: keysKept_def timeStr_known)
  show "keysKept d'"
    using assms(2) sumValues_postIncrement(2) [OF day] sumValues_postIncrement(2) [OF time]
    by (simp add: keysKept_def d')
  show "sumValues (by_week d') = js_add (sumValues (by_week d)) (Num 1)"
    by (simp add: d' sumValues_countUp)
  show "sumValues (by_day d') = js_add (sumValues (by_day d)) (Num 1)"
    by (simp add: d' sumValues_postIncrement(1) [OF day])
  show "sumValues (by_time d') = js_add (sumValues (by_time d)) (Num 1)"
    by (simp add: d' sumValues_postIncrement(1) [OF time])
qed

lemma js_add_Num_step:
  "0 \<le> n \<Longrightarrow> js_add (js_add v (Num 1)) (Num (rat_of_int n)) = js_add v (Num (rat_of_int (n + 1)))"
  by (cases v) simp_all

lemma statisticsLoop_counts:
  assumes "keysKept d"
  shows "sumValues (by_week (statisticsLoop n ti r d))
           = js_add (sumValues (by_week d)) (Num (rat_of_int (max 0 n)))
       \<and> sumValues (by_day (statisticsLoop n ti r d))
           = js_add (sumValues (by_day d)) (Num (rat_of_int (max 0 n)))
       \<and> sumValues (by_time (statisticsLoop n ti r d))
           = js_add (sumValues (by_time d)) (Num (rat_of_int (max 0 n)))"
  using assms
proof (induction n ti r d rule: statisticsLoop.induct)
  case (1 remaining ti r d)
  show ?case
  proof (cases "remaining > 0")
    case False
    have z: "js_add v (Num 0) = v" for v by (cases v) simp_all
    from False show ?thesis
      by (simp add: statisticsLoop.simps [of remaining] z)
  next
    case True
    obtain d' r' where round: "statisticsRound ti r d = (d', r')"
      by (cases "statisticsRound ti r d")
    note step = statisticsRound_counts [OF round "1.prems"]
    have ih: "sumValues (by_week (statisticsLoop (remaining - 1) ti r' d'))
           = js_add (sumValues (by_week d')) (Num (rat_of_int (max 0 (remaining - 1))))
       \<and> sumValues (by_day (statisticsLoop (remaining - 1) ti r' d'))
           = js_add (sumValues (by_day d')) (Num (rat_of_int (max 0 (remaining - 1))))
       \<and> sumValues (by_time (statisticsLoop (remaining - 1) ti r' d'))
           = js_add (sumValues (by_time d')) (Num (rat_of_int (max 0 (remaining - 1))))"
      using "1.IH" [OF True round [symmetric] step(1)] .
    have m: "max 0 (remaining - 1) = remaining - 1" "max 0 remaining = remaining - 1 + 1"
      using True by simp_all
    have unfold: "statisticsLoop remaining ti r d = statisticsLoop (remaining - 1) ti r' d'"
      using True round by (simp add: statisticsLoop.simps [of remaining])
    show ?thesis
      unfolding unfold m using ih step(2-4) True
      by (simp only: m js_add_Num_step [of "remaining - 1"]) 
  qed
qed

lemma sumValues_zeros:
  "list_all (\<lambda>e. snd e = Num 0) obj \<Longrightarrow> sumValues obj = Num 0"
  by (induction obj) (auto simp: sumValues_def)

lemma zeros_update:
  "list_all (\<lambda>e. snd e = Num 0) obj \<Longrightarrow> list_all (\<lambda>e. snd e = Num 0) (AList.update k (Num 0) obj)"
  by (induction obj) auto

lemma zeros_foldl_update:
  "list_all (\<lambda>e. snd e = Num 0) acc \<Longrightarrow>
   list_all (\<lambda>e. snd e = Num 0) (foldl (\<lambda>obj i. AList.update (f i) (Num 0) obj) acc xs)"
  by (induction xs arbitrary: acc) (simp_all add: zeros_update)

lemma initial_sums:
  "sumValues ([] :: (int \<times> jsnum) list) = Num 0"
  "sumValues initial_by_day = Num 0"
  "sumValues initial_by_time = Num 0"
proof -
  show "sumValues ([] :: (int \<times> jsnum) list) = Num 0"
    by (simp add: sumValues_def)
  show "sumValues initial_by_day = Num 0"
    by (rule sumValues_zeros) (simp add: initial_by_day_def list_all_iff)
  show "sumValues initial_by_time = Num 0"
    unfolding initial_by_time_def by (rule sumValues_zeros, rule zeros_foldl_update) simp
qed

lemma generateHotspotStatistics_conserved:
  assumes "0 \<le> n"
  shows "sumValues (by_week (generateHotspotStatistics r n ti)) = Num (rat_of_int n)"
    and "sumValues (by_day (generateHotspotStatistics r n ti)) = Num (rat_of_int n)"
    and "sumValues (by_time (generateHotspotStatistics r n ti)) = Num (rat_of_int n)"
proof -
  let ?d = "\<lparr> by_week = [], by_day = initial_by_day, by_time = initial_by_time \<rparr>"
  have "keysKept ?d"
    by (simp add: keysKept_def)
  from statisticsLoop_counts [OF this, of n ti r] assms
  show "sumValues (by_week (generateHotspotStatistics r n ti)) = Num (rat_of_int n)"
    and "sumValues (by_day (generateHotspotStatistics r n ti)) = Num (rat_of_int n)"
    and "sumValues (by_time (generateHotspotStatistics r n ti)) = Num (rat_of_int n)"
    by (simp_all add: generateHotspotStatistics_def initial_sums)
qed

lemma cube_floor_nonneg:
  assumes "0 \<le> u"
  shows "0 \<le> Math_floor (u ^ 3 * 500)"
  using assms by (simp add: Math_floor_def)

lemma floor50: "0 \<le> u \<Longrightarrow> u < 1 \<Longrightarrow> 0 \<le> Math_floor (u * 50) \<and> Math_floor (u * 50) < 50"
  using floor_scaled [of u 50] by simp

lemma drawn_total_count: "0 \<le> Math_floor (fst (seededRand_call r) ^ 3 * 500)"
  using seededRand_call_range [of r] by (simp add: cube_floor_nonneg)

lemma drawn_confidence:
  "0 \<le> Math_floor (fst (seededRand_call r) * 50)" "Math_floor (fst (seededRand_call r) * 50) \<le> 49"
  using seededRand_call_range [of r] floor50 [of "fst (seededRand_call r)"] by simp_all

lemma generateHotspot_fields:
  assumes "generateHotspot rt now uuid sd i = Inr (k, h)"
  shows "(\<exists>r. statistics h = generateHotspotStatistics r (hs_total_count (hs_metadata h))
            (time_of_day_impact (hs_metadata h)))
    \<and> 5 \<le> hs_total_count (hs_metadata h)
    \<and> 50 \<le> risk_confidence (risk (hs_metadata h))
    \<and> risk_confidence (risk (hs_metadata h)) \<le> 99
    \<and> hs_id (hs_metadata h) = uuid
    \<and> k = toFixed 5 (latitude (hs_location h)) @ [CHR ''_''] @ toFixed 5 (longitude (hs_location h))"
proof -
  from assms obtain base r where
    "sampleAlongPolyline rt (highways ! nat (Math_floor (fst (seededRand_call
        (seededRand (word_of_nat i XOR sd XOR 0xABCDEF))) * rat_of_nat (length highways))))
      (snd (seededRand_call (seededRand (word_of_nat i XOR sd XOR 0xABCDEF)))) = Inr (base, r)"
    by (auto simp: generateHotspot_def Let_def split_def split: sum.splits if_splits)
  with assms show ?thesis
    using drawn_total_count drawn_confidence
    by (auto simp: generateHotspot_def Let_def split_def split: if_splits)
qed

lemma highways_wellformed:
  "length highways = 11" "list_all (\<lambda>poly. 2 \<le> length poly) highways"
  by (simp_all add: highways_def)

lemma sampleAlongPolyline_total:
  assumes "2 \<le> length poly"
  shows "\<exists>p r'. sampleAlongPolyline rt poly r = Inr (p, r')"
  using assms
  by (auto simp: sampleAlongPolyline_def Let_def split_def split: option.splits)

lemma highway_index:
  "0 \<le> Math_floor (fst (seededRand_call r) * rat_of_nat (length highways))"
  "Math_floor (fst (seededRand_call r) * rat_of_nat (length highways)) < int (length highways)"
  using seededRand_call_range [of r] floor_scaled [of "fst (seededRand_call r)" 11]
  by (simp_all add: highways_wellformed)

lemma generateHotspot_total: "\<exists>k h. generateHotspot rt now uuid sd i = Inr (k, h)"
proof -
  let ?r = "seededRand (word_of_nat i XOR sd XOR 0xABCDEF)"
  let ?n = "nat (Math_floor (fst (seededRand_call ?r) * rat_of_nat (length highways)))"
  have "?n < length highways"
    using highway_index [of ?r] by simp
  then have "2 \<le> length (highways ! ?n)"
    using highways_wellformed(2) by (simp add: list_all_length)
  then obtain p r' where "sampleAlongPolyline rt (highways ! ?n) (snd (seededRand_call ?r)) = Inr (p, r')"
    using sampleAlongPolyline_total by blast
  then show ?thesis
    using highway_index [of ?r]
    by (simp add: generateHotspot_def Let_def split_def)
qed



lemma hotspotsLoop_entries:
  assumes "hotspotsLoop rt clock uuids sd is acc = Inr hs" and "(k, h) \<in> set hs"
  shows "(k, h) \<in> set acc \<or> (\<exists>i \<in> set is. generateHotspot rt (clock i) (uuids i) sd i = Inr (k, h))"
  using assms
proof (induction "is" arbitrary: acc)
  case Nil
  then show ?case by simp
next
  case (Cons i rest)
  obtain k' h' where gen: "generateHotspot rt (clock i) (uuids i) sd i = Inr (k', h')"
    using generateHotspot_total by blast
  with Cons.prems have "hotspotsLoop rt clock uuids sd rest (AList.update k' h' acc) = Inr hs"
    by simp
  from Cons.IH [OF this Cons.prems(2)] show ?case
    using gen set_update_subset [of k' h' acc] by auto
qed

lemma hotspotsLoop_keys:
  assumes "hotspotsLoop rt clock uuids sd is acc = Inr hs"
  shows "fst ` set acc \<subseteq> fst ` set hs"
    and "\<forall>i \<in> set is. \<forall>k h. generateHotspot rt (clock i) (uuids i) sd i = Inr (k, h)
           \<longrightarrow> k \<in> fst ` set hs"
  using assms
proof (induction "is" arbitrary: acc)
  case Nil
  { case 1 then show ?case by simp }
  { case 2 then show ?case by simp }
next
  case (Cons i rest)
  obtain k' h' where gen: "generateHotspot rt (clock i) (uuids i) sd i = Inr (k', h')"
    using generateHotspot_total by blast
  { case 1
    with gen have run: "hotspotsLoop rt clock uuids sd rest (AList.update k' h' acc) = Inr hs"
      by simp
    from Cons.IH(1) [OF run] show ?case
      by (auto simp: keys_update) }
  { case 2
    with gen have run: "hotspotsLoop rt clock uuids sd rest (AList.update k' h' acc) = Inr hs"
      by simp
    from Cons.IH(1) [OF run] Cons.IH(2) [OF run] gen show ?case
      by (auto simp: keys_update) }
qed



lemma generateHotspot_independent:
  "map_sum id (apsnd withoutClockAndUuid) (generateHotspot rt now1 uuid1 sd i)
   = map_sum id (apsnd withoutClockAndUuid) (generateHotspot rt now2 uuid2 sd i)"
  by (simp add: generateHotspot_def Let_def split_def withoutClockAndUuid_def
      split: sum.splits)

lemma generateHotspot_shift:
  assumes "generateHotspot rt now uuid sd i = Inr (k, h)"
  shows "generateHotspot rt (now + d) uuid' sd i =
    Inr (k, h\<lparr> timeframe_first := timeframe_first h + d,
               hs_timeframe_last := hs_timeframe_last h + d,
               hs_metadata := (hs_metadata h)\<lparr> hs_id := uuid' \<rparr> \<rparr>)"
  using assms
  by (auto simp: generateHotspot_def Let_def split_def split: sum.splits if_splits)

lemma map_update_apsnd:
  "map (apsnd f) (AList.update k v al) = AList.update k (f v) (map (apsnd f) al)"
  by (induction al) auto

lemma hotspotsLoop_independent:
  assumes "map (apsnd withoutClockAndUuid) acc1 = map (apsnd withoutClockAndUuid) acc2"
  shows "map_sum id (map (apsnd withoutClockAndUuid)) (hotspotsLoop rt clock1 uuids1 sd is acc1)
       = map_sum id (map (apsnd withoutClockAndUuid)) (hotspotsLoop rt clock2 uuids2 sd is acc2)"
  using assms
proof (induction "is" arbitrary: acc1 acc2)
  case Nil
  then show ?case by simp
next
  case (Cons i rest)
  obtain k1 h1 where g1: "generateHotspot rt (clock1 i) (uuids1 i) sd i = Inr (k1, h1)"
    using generateHotspot_total by blast
  obtain k2 h2 where g2: "generateHotspot rt (clock2 i) (uuids2 i) sd i = Inr (k2, h2)"
    using generateHotspot_total by blast
  from generateHotspot_independent [of rt "clock1 i" "uuids1 i" sd i "clock2 i" "uuids2 i"] g1 g2
  have "k1 = k2" and "withoutClockAndUuid h1 = withoutClockAndUuid h2"
    by simp_all
  with Cons.prems have
    "map (apsnd withoutClockAndUuid) (AList.update k1 h1 acc1)
     = map (apsnd withoutClockAndUuid) (AList.update k2 h2 acc2)"
    by (simp add: map_update_apsnd)
  from Cons.IH [OF this] g1 g2 show ?case
    by simp
qed

subsection \<open>The states of the engine and its reads\<close>


lemma unit_interval_million:
  "0 \<le> rat_of_int (uint (w :: 32 word) mod 1000000) / 1000000
   \<and> rat_of_int (uint w mod 1000000) / 1000000 < 1"
proof -
  have "0 \<le> uint w mod 1000000" and "uint w mod 1000000 < 1000000"
    by simp_all
  then have "0 \<le> rat_of_int (uint w mod 1000000)"
    and "rat_of_int (uint w mod 1000000) < rat_of_int 1000000"
    by (simp_all only: of_int_0_le_iff of_int_less_iff)
  then show ?thesis
    by simp
qed

lemma randUniform_range:
  "0 \<le> fst (randUniform seedOffset s) \<and> fst (randUniform seedOffset s) < 1"
  unfolding randUniform_def Let_def fst_conv by (rule unit_interval_million)

lemma randUniform_state:
  "snd (randUniform seedOffset s) = s\<lparr> rngState := nextRngState (rngState s) \<rparr>"
  by (simp add: randUniform_def Let_def)

lemma environment_state:
  "\<exists>w. snd (generateEnvironmentForLocation rt lat lng t rngSeed s) = s\<lparr> rngState := w \<rparr>"
  by (auto simp: generateEnvironmentForLocation_def Let_def split_def randUniform_state)

lemma floor_offset:
  assumes "0 \<le> u" and "u < 1" and "0 < n"
  shows "a \<le> Math_floor (rat_of_int a + u * rat_of_int n)"
    and "Math_floor (rat_of_int a + u * rat_of_int n) < a + n"
proof -
  have "Math_floor (rat_of_int a + u * rat_of_int n) = a + Math_floor (u * rat_of_int n)"
    by (simp add: Math_floor_def)
  with floor_scaled [OF assms]
  show "a \<le> Math_floor (rat_of_int a + u * rat_of_int n)"
    and "Math_floor (rat_of_int a + u * rat_of_int n) < a + n"
    by simp_all
qed

lemma initial_confidence:
  "70 \<le> Math_floor (70 + fst (randUniform seedOffset s) * 30)"
  "Math_floor (70 + fst (randUniform seedOffset s) * 30) \<le> 99"
  using randUniform_range [of seedOffset s]
    floor_offset [of "fst (randUniform seedOffset s)" 30 70]
  by simp_all

lemma initialCell_result:
  assumes "initialCell rt now i loc s = ((cell, bucket), s')"
  shows "\<exists>w. s' = s\<lparr> rngState := w \<rparr>"
    and "cellInRange (k, cell)"
    and "sumsFinite (k, bucket)"
proof -
  obtain w where w: "snd (generateEnvironmentForLocation rt (loc_lat loc) (loc_lng loc) now
      (word_of_nat i) s) = s\<lparr> rngState := w \<rparr>"
    using environment_state by blast
  from assms show "\<exists>w. s' = s\<lparr> rngState := w \<rparr>"
    by (auto simp: initialCell_def Let_def split_def randUniform_state w)
  have "js_le (Num 0) (confidence (metadata cell))"
    "js_le (confidence (metadata cell)) (Num 100)"
    "js_le (Num 1) (total_count (metadata cell))"
    using assms initial_confidence [of "word_of_nat i" "s\<lparr> rngState := w \<rparr>"]
    by (auto simp: initialCell_def Let_def split_def w)
  then show "cellInRange (k, cell)"
    by (simp add: cellInRange_def)
  from assms show "sumsFinite (k, bucket)"
    by (auto simp: initialCell_def Let_def split_def sumsFinite_def isFinite_def)
qed

lemma cellsLoop_frame:
  "hotspots (cellsLoop rt now i locs s) = hotspots s
   \<and> cellLocations (cellsLoop rt now i locs s) = cellLocations s"
proof (induction locs arbitrary: i s)
  case Nil
  then show ?case by simp
next
  case (Cons loc locs)
  obtain cell bucket s' where step: "initialCell rt now i loc s = ((cell, bucket), s')"
    by (metis prod.exhaust)
  then obtain w where "s' = s\<lparr> rngState := w \<rparr>"
    using initialCell_result(1) by blast
  with step show ?case
    by (simp add: Cons.IH)
qed







lemma push_frame:
  "snapshot (pushRawEvent now k e s) = snapshot s"
  "hotspots (pushRawEvent now k e s) = hotspots s"
  by (simp_all add: pushRawEvent_def Let_def)




lemma produce_frame:
  assumes "produceRandomRawEvent now s = Inr s'"
  shows "snapshot s' = snapshot s \<and> hotspots s' = hotspots s"
  using assms
  by (auto simp: produceRandomRawEvent_def Let_def split_def randUniform_state push_frame
      split: if_splits option.splits)


lemma statistics_state:
  "\<exists>w. snd (generateInitialStatisticsForCell now cell s) = s\<lparr> rngState := w \<rparr>"
  by (auto simp: generateInitialStatisticsForCell_def Let_def split_def randUniform_state)

lemma statistics_frame:
  "snapshot (snd (generateInitialStatisticsForCell now cell s)) = snapshot s"
  "hotspots (snd (generateInitialStatisticsForCell now cell s)) = hotspots s"
  using statistics_state [of now cell s] by auto

lemma getCell_frame:
  "snapshot (snd (getCell now k opts s)) = snapshot s"
  "hotspots (snd (getCell now k opts s)) = hotspots s"
  by (auto simp: getCell_def Let_def split_def statistics_frame split: option.splits)




lemma statistics_rawAgg:
  "rawAgg (snd (generateInitialStatisticsForCell now cell s)) = rawAgg s"
  using statistics_state [of now cell s] by auto

lemma getCell_rawAgg: "rawAgg (snd (getCell now k opts s)) = rawAgg s"
  by (auto simp: getCell_def Let_def split_def statistics_rawAgg split: option.splits)


lemma snapshotScan_other:
  "k \<notin> fst ` set entries \<Longrightarrow> map_of (snapshotScan rt b entries out) k = map_of out k"
proof (induction entries arbitrary: out)
  case Nil
  then show ?case by simp
next
  case (Cons e entries)
  obtain k' c where e: "e = (k', c)" by (cases e)
  from Cons.prems have "k \<noteq> k'" and "k \<notin> fst ` set entries" by (auto simp: e)
  then show ?case
    unfolding e by (simp add: Cons.IH Let_def split_def update_conv')
qed

lemma snapshotScan_lookup:
  assumes "distinct (map fst entries)" and "map_of entries k = Some cell"
    and "inBbox b (fst (cellToLatLng rt k)) (snd (cellToLatLng rt k))"
  shows "map_of (snapshotScan rt b entries out) k = Some cell"
  using assms(1,2)
proof (induction entries arbitrary: out)
  case Nil
  then show ?case by simp
next
  case (Cons e entries)
  obtain k' c where e: "e = (k', c)" by (cases e)
  show ?case
  proof (cases "k' = k")
    case True
    with Cons.prems have "c = cell" and "k \<notin> fst ` set entries" by (auto simp: e)
    then show ?thesis
      unfolding e using True assms(3)
      by (simp add: snapshotScan_other Let_def split_def update_conv')
  next
    case False
    with Cons.prems have "distinct (map fst entries)" and "map_of entries k = Some cell"
      by (auto simp: e)
    then show ?thesis
      unfolding e using Cons.IH by (simp add: Let_def split_def)
  qed
qed

lemma inBbox_NaN:
  assumes "length b = 4" and "NaN \<in> set b"
  shows "\<not> inBbox b lat lng"
proof -
  from assms(1) obtain b0 b1 b2 b3 where b: "b = [b0, b1, b2, b3]"
    by (auto simp: length_Suc_conv numeral_eq_Suc)
  with assms(2) show ?thesis
    by (auto simp: inBbox_def)
qed

lemma snapshotScan_NaN:
  assumes "length b = 4" and "NaN \<in> set b"
  shows "snapshotScan rt b entries out = out"
  by (induction entries arbitrary: out) (auto simp: Let_def split_def inBbox_NaN [OF assms])

lemma hotspotScan_NaN:
  assumes "length b = 4" and "NaN \<in> set b"
  shows "hotspotScan b entries out = out"
  by (induction entries arbitrary: out) (auto simp: Let_def inBbox_NaN [OF assms])

lemma cells_locations:
  "map_sum id cellLocations (generateInitialCells rt now forceCount s)
   = sampleLocations rt (seed s) (resolution s)
       [0..<(case forceCount of Some n \<Rightarrow> n | None \<Rightarrow> targetCellCount s)]"
  by (simp add: generateInitialCells_def Let_def cellsLoop_frame split: sum.splits)

lemma hotspots_independent:
  assumes "seed s1 = seed s2"
    and "(case forceCount of Some n \<Rightarrow> n | None \<Rightarrow> targetHotspotCount s1)
       = (case forceCount of Some n \<Rightarrow> n | None \<Rightarrow> targetHotspotCount s2)"
  shows "map_sum id (\<lambda>s'. map (apsnd withoutClockAndUuid) (hotspots s'))
           (generateInitialHotspots rt clock1 uuids1 forceCount s1)
       = map_sum id (\<lambda>s'. map (apsnd withoutClockAndUuid) (hotspots s'))
           (generateInitialHotspots rt clock2 uuids2 forceCount s2)"
proof -
  let ?n = "case forceCount of Some n \<Rightarrow> n | None \<Rightarrow> targetHotspotCount s2"
  have "map_sum id (map (apsnd withoutClockAndUuid))
          (hotspotsLoop rt clock1 uuids1 (seed s2) [0..<?n] [])
      = map_sum id (map (apsnd withoutClockAndUuid))
          (hotspotsLoop rt clock2 uuids2 (seed s2) [0..<?n] [])"
    by (rule hotspotsLoop_independent) simp
  then show ?thesis
    using assms by (auto simp: generateInitialHotspots_def Let_def split: sum.splits)
qed

lemma distinct_flushLoop:
  "flushLoop old clock i entries acc = Inr out \<Longrightarrow> distinct (map fst acc)
   \<Longrightarrow> distinct (map fst out)"
proof (induction entries arbitrary: i acc)
  case Nil
  then show ?case by simp
next
  case (Cons e entries)
  obtain k agg where e: "e = (k, agg)" by (cases e)
  from Cons.prems(1) obtain c where
    rest: "flushLoop old clock (i + 1) entries (AList.update k c acc) = Inr out"
    unfolding e by (auto split: sum.splits)
  from Cons.prems(2) have "distinct (map fst (AList.update k c acc))"
    by (simp add: distinct_update)
  from Cons.IH [OF rest this] show ?case .
qed

lemma distinct_cellsLoop:
  assumes "distinct (map fst (snapshot s))" and "distinct (map fst (rawAgg s))"
  shows "distinct (map fst (snapshot (cellsLoop rt now i locs s)))
       \<and> distinct (map fst (rawAgg (cellsLoop rt now i locs s)))"
  using assms
proof (induction locs arbitrary: i s)
  case Nil
  then show ?case by simp
next
  case (Cons loc locs)
  obtain cell bucket s' where step: "initialCell rt now i loc s = ((cell, bucket), s')"
    by (metis prod.exhaust)
  then obtain w where s': "s' = s\<lparr> rngState := w \<rparr>"
    using initialCell_result(1) by blast
  show ?case
    using step s' Cons.prems by (auto intro!: Cons.IH distinct_update)
qed

lemma distinct_hotspotsLoop:
  assumes "hotspotsLoop rt clock uuids sd is acc = Inr hs" and "distinct (map fst acc)"
  shows "distinct (map fst hs)"
  using assms
proof (induction "is" arbitrary: acc)
  case Nil
  then show ?case by simp
next
  case (Cons i rest)
  obtain k h where gen: "generateHotspot rt (clock i) (uuids i) sd i = Inr (k, h)"
    using generateHotspot_total by blast
  with Cons.prems(1) have "hotspotsLoop rt clock uuids sd rest (AList.update k h acc) = Inr hs"
    by simp
  moreover have "distinct (map fst (AList.update k h acc))"
    using Cons.prems(2) by (simp add: distinct_update)
  ultimately show ?case
    by (rule Cons.IH)
qed

lemma produce_rawAgg:
  assumes "produceRandomRawEvent now s = Inr s'" and "distinct (map fst (rawAgg s))"
  shows "distinct (map fst (rawAgg s'))"
  using assms
  by (auto simp: produceRandomRawEvent_def Let_def split_def randUniform_state pushRawEvent_def
      distinct_update split: if_splits option.splits)

lemma reachable_distinct:
  assumes "reachable rt accepted s"
  shows "distinct (map fst (snapshot s)) \<and> distinct (map fst (rawAgg s))
       \<and> distinct (map fst (hotspots s))"
  using assms
proof (induction rule: reachable.induct)
  case (constructed randomSeed opts)
  then show ?case by (simp add: newSimulation_def Let_def)
next
  case (cells s now forceCount s')
  then show ?case
    by (auto simp: generateInitialCells_def Let_def cellsLoop_frame distinct_cellsLoop
        split: sum.splits)
next
  case (hotspots s clock uuids forceCount s')
  then show ?case
    by (auto simp: generateInitialHotspots_def Let_def split: sum.splits
        dest: distinct_hotspotsLoop)
next
  case (started s id1 id2)
  then show ?case by (simp add: start_def split: option.splits)
next
  case (stopped s)
  then show ?case by (simp add: stop_def)
next
  case (pushed s event now h3Index)
  then show ?case by (simp add: push_frame distinct_push)
next
  case (produced s now s')
  then show ?case using produce_frame [OF produced.hyps(2)] produce_rawAgg [OF produced.hyps(2)]
    by simp
next
  case (flushed s clock s')
  from flushed.hyps(2) obtain out where
    out: "flushLoop (snapshot s) clock 0 (rawAgg s) [] = Inr out"
    and s': "s' = s\<lparr> snapshot := out, rawAgg := [] \<rparr>"
    by (rule flush_result)
  from distinct_flushLoop [OF out] flushed.IH show ?case
    by (simp add: s')
next
  case (read s now h3Index opts)
  then show ?case
    by (simp add: getCell_frame getCell_rawAgg)
next
  case (merged s h3Index upd)
  then show ?case by (simp add: addOrMergeStatistics_def Let_def)
qed

subsection \<open>Generation, ranges and queries\<close>

lemma single_hotspot_run:
  assumes "generateHotspot rt (clock 0) (uuids 0) (seed s) 0 = Inr (k, h)"
  shows "generateInitialHotspots rt clock uuids (Some 1) s = Inr (s\<lparr> hotspots := [(k, h)] \<rparr>)"
  using assms by (simp add: generateInitialHotspots_def)

text \<open>
  Claim C1. Every hotspot that \<open>generateInitialHotspots\<close> stores has the sum of its
  \<open>by_day\<close> counts, the sum of its \<open>by_week\<close> counts and the sum of its \<open>by_time\<close>
  counts equal to its \<open>metadata.total_count\<close> (and none of the counts is \<open>NaN\<close>).
\<close>

theorem hotspot_distributions_conserved:
  assumes "generateInitialHotspots rt clock uuids forceCount s = Inr s'"
    and "(k, h) \<in> set (hotspots s')"
  shows "sumValues (by_day (statistics h)) = Num (rat_of_int (hs_total_count (hs_metadata h)))
    \<and> sumValues (by_week (statistics h)) = Num (rat_of_int (hs_total_count (hs_metadata h)))
    \<and> sumValues (by_time (statistics h)) = Num (rat_of_int (hs_total_count (hs_metadata h)))"
proof -
  let ?n = "case forceCount of Some n \<Rightarrow> n | None \<Rightarrow> targetHotspotCount s"
  from assms obtain hs where
    run: "hotspotsLoop rt clock uuids (seed s) [0..<?n] [] = Inr hs" and "(k, h) \<in> set hs"
    by (auto simp: generateInitialHotspots_def Let_def split: sum.splits)
  with hotspotsLoop_entries [OF run]
  obtain i where "generateHotspot rt (clock i) (uuids i) (seed s) i = Inr (k, h)"
    by auto
  from generateHotspot_fields [OF this] obtain r where
    "statistics h = generateHotspotStatistics r (hs_total_count (hs_metadata h))
       (time_of_day_impact (hs_metadata h))"
    and "0 \<le> hs_total_count (hs_metadata h)"
    by auto
  then show ?thesis
    using generateHotspotStatistics_conserved by simp
qed

theorem hotspot_distributions_conserved_witness:
  "\<exists>s' k h.
     generateInitialHotspots exampleRuntime exampleClock exampleUuids (Some 1) exampleSimulation
       = Inr s'
     \<and> (k, h) \<in> set (hotspots s')
     \<and> sumValues (by_day (statistics h)) = Num (rat_of_int (hs_total_count (hs_metadata h)))
     \<and> sumValues (by_week (statistics h)) = Num (rat_of_int (hs_total_count (hs_metadata h)))
     \<and> sumValues (by_time (statistics h)) = Num (rat_of_int (hs_total_count (hs_metadata h)))"
proof -
  obtain k h where "generateHotspot exampleRuntime (exampleClock 0) (exampleUuids 0)
      (seed exampleSimulation) 0 = Inr (k, h)"
    using generateHotspot_total by blast
  then have run: "generateInitialHotspots exampleRuntime exampleClock exampleUuids (Some 1)
      exampleSimulation = Inr (exampleSimulation\<lparr> hotspots := [(k, h)] \<rparr>)"
    using single_hotspot_run [of exampleRuntime exampleClock exampleUuids exampleSimulation k h]
    by simp
  have mem: "(k, h) \<in> set (hotspots (exampleSimulation\<lparr> hotspots := [(k, h)] \<rparr>))"
    by simp
  from run mem hotspot_distributions_conserved [OF run mem] show ?thesis
    by blast
qed



lemma generatedRun_hotspots:
  "\<exists>k h. generateHotspot exampleRuntime (exampleClock 0) (exampleUuids 0)
        (seed exampleSimulation) 0 = Inr (k, h)
     \<and> generatedRun = exampleSimulation\<lparr> hotspots := [(k, h)] \<rparr>"
proof -
  obtain k h where gen: "generateHotspot exampleRuntime (exampleClock 0) (exampleUuids 0)
      (seed exampleSimulation) 0 = Inr (k, h)"
    using generateHotspot_total by blast
  with single_hotspot_run [of exampleRuntime exampleClock exampleUuids exampleSimulation k h]
  show ?thesis
    by (simp add: generatedRun_def stateOf_def)
qed

lemma digitsOf_0: "digitsOf 0 = ''0''"
  by code_simp

lemma otherEvent_timeOk: "timeOk (k, addEvent 1700000000000 otherEvent emptyBucket)"
  by (simp add: addEvent_def otherEvent_def emptyBucket_def js_max_def timeOk_def)

lemma rangeRun_state:
  "\<exists>k h c. generatedRun = exampleSimulation\<lparr> hotspots := [(k, h)] \<rparr>
     \<and> rangeRun = exampleSimulation
         \<lparr> hotspots := [(k, h)], snapshot := [(''8928308280fffff'', c)], rawAgg := [] \<rparr>"
proof -
  obtain k h where run: "generatedRun = exampleSimulation\<lparr> hotspots := [(k, h)] \<rparr>"
    using generatedRun_hotspots by blast
  have "rawAgg generatedRun = []"
    by (simp add: run exampleSimulation_empty)
  from flushed_first_event [OF this otherEvent_timeOk, of exampleClock]
  obtain c where "rangeRun = generatedRun\<lparr> snapshot := [(''8928308280fffff'', c)], rawAgg := [] \<rparr>"
    unfolding rangeRun_def by blast
  then have "rangeRun = exampleSimulation
      \<lparr> hotspots := [(k, h)], snapshot := [(''8928308280fffff'', c)], rawAgg := [] \<rparr>"
    by (simp add: run)
  with run show ?thesis
    by blast
qed

lemma bboxRun_state:
  "\<exists>c. bboxRun = exampleSimulation\<lparr> snapshot := [(''8928308280fffff'', c)], rawAgg := [] \<rparr>"
proof -
  have "timeOk (''8928308280fffff'', addEvent 1700000000000 (onlyTemperature 10) emptyBucket)"
    by (simp add: first_event_bucket js_max_def timeOk_def)
  from flushed_first_event [OF exampleSimulation_empty(1) this, of exampleClock]
  show ?thesis
    unfolding bboxRun_def by blast
qed

lemma exampleUuids_0: "exampleUuids 0 = ''123e4567-e89b-42d3-a456-426614174000''"
  by (simp add: exampleUuids_def digitsOf_0)

lemma otherUuids_0: "otherUuids 0 = ''9b2f0c1e-7d4a-4c1b-8f3e-0a1b2c3d4e50''"
  by (simp add: otherUuids_def digitsOf_0)


text \<open>
  Claim C2, as amended. Two runs with the same seed, resolution and target counts, at
  whatever times, with whatever UUIDs and whatever else the two engines hold, produce the
  same cell locations (or fail alike), and hotspot sets that are equal in every key and
  in every field except \<open>metadata.id\<close>, \<open>timeframe.first\<close> and \<open>timeframe.last\<close>.
\<close>

theorem generation_reproducible:
  assumes "seed s1 = seed s2" and "resolution s1 = resolution s2"
    and "targetCellCount s1 = targetCellCount s2"
    and "targetHotspotCount s1 = targetHotspotCount s2"
  shows "map_sum id cellLocations (generateInitialCells rt now1 cellCount s1)
       = map_sum id cellLocations (generateInitialCells rt now2 cellCount s2)
    \<and> map_sum id (\<lambda>s'. map (apsnd withoutClockAndUuid) (hotspots s'))
          (generateInitialHotspots rt clock1 uuids1 hotspotCount s1)
       = map_sum id (\<lambda>s'. map (apsnd withoutClockAndUuid) (hotspots s'))
          (generateInitialHotspots rt clock2 uuids2 hotspotCount s2)"
proof -
  have "(case hotspotCount of Some n \<Rightarrow> n | None \<Rightarrow> targetHotspotCount s1)
      = (case hotspotCount of Some n \<Rightarrow> n | None \<Rightarrow> targetHotspotCount s2)"
    using assms(4) by (cases hotspotCount) simp_all
  from hotspots_independent [OF assms(1) this] show ?thesis
    using assms(1-3) by (cases cellCount) (simp_all add: cells_locations)
qed

theorem generation_reproducible_witness:
  "seed exampleSimulation = seed rangeRun
   \<and> resolution exampleSimulation = resolution rangeRun
   \<and> targetCellCount exampleSimulation = targetCellCount rangeRun
   \<and> targetHotspotCount exampleSimulation = targetHotspotCount rangeRun
   \<and> snapshot exampleSimulation \<noteq> snapshot rangeRun
   \<and> map_sum id cellLocations
         (generateInitialCells exampleRuntime 1700000000000 (Some 3) exampleSimulation)
       = map_sum id cellLocations
         (generateInitialCells exampleRuntime 1700000060000 (Some 3) rangeRun)
   \<and> map_sum id (\<lambda>s'. map (apsnd withoutClockAndUuid) (hotspots s'))
          (generateInitialHotspots exampleRuntime exampleClock exampleUuids (Some 2)
             exampleSimulation)
       = map_sum id (\<lambda>s'. map (apsnd withoutClockAndUuid) (hotspots s'))
          (generateInitialHotspots exampleRuntime laterClock otherUuids (Some 2) rangeRun)"
proof -
  obtain k h c where run: "rangeRun = exampleSimulation
      \<lparr> hotspots := [(k, h)], snapshot := [(''8928308280fffff'', c)], rawAgg := [] \<rparr>"
    using rangeRun_state by blast
  have same: "seed exampleSimulation = seed rangeRun"
    "resolution exampleSimulation = resolution rangeRun"
    "targetCellCount exampleSimulation = targetCellCount rangeRun"
    "targetHotspotCount exampleSimulation = targetHotspotCount rangeRun"
    by (simp_all add: run)
  have "snapshot rangeRun \<noteq> []"
    by (simp add: run)
  then have differ: "snapshot exampleSimulation \<noteq> snapshot rangeRun"
    by (simp add: exampleSimulation_empty)
  show ?thesis
    using same differ
      generation_reproducible [OF same, of exampleRuntime 1700000000000 "Some 3" 1700000060000
        exampleClock exampleUuids "Some 2" laterClock otherUuids]
    by simp
qed

lemma otherRun_hotspots:
  assumes "generateHotspot exampleRuntime (exampleClock 0) (exampleUuids 0)
        (seed exampleSimulation) 0 = Inr (k, h)"
  shows "otherRun = exampleSimulation
      \<lparr> hotspots := [(k, h\<lparr> hs_metadata := (hs_metadata h)\<lparr> hs_id := otherUuids 0 \<rparr> \<rparr>)] \<rparr>"
    and "laterRun = exampleSimulation
      \<lparr> hotspots := [(k, h\<lparr> timeframe_first := timeframe_first h + 60000,
                              hs_timeframe_last := hs_timeframe_last h + 60000 \<rparr>)] \<rparr>"
proof -
  have id: "hs_id (hs_metadata h) = exampleUuids 0"
    using generateHotspot_fields [OF assms] by simp
  from generateHotspot_shift [OF assms, of 0 "otherUuids 0"]
  have "generateHotspot exampleRuntime (exampleClock 0) (otherUuids 0) (seed exampleSimulation) 0
      = Inr (k, h\<lparr> hs_metadata := (hs_metadata h)\<lparr> hs_id := otherUuids 0 \<rparr> \<rparr>)"
    by simp
  from single_hotspot_run [of exampleRuntime exampleClock otherUuids exampleSimulation, OF this]
  show "otherRun = exampleSimulation
      \<lparr> hotspots := [(k, h\<lparr> hs_metadata := (hs_metadata h)\<lparr> hs_id := otherUuids 0 \<rparr> \<rparr>)] \<rparr>"
    by (simp add: otherRun_def stateOf_def)
  from generateHotspot_shift [OF assms, of 60000 "exampleUuids 0"]
  have "generateHotspot exampleRuntime (laterClock 0) (exampleUuids 0) (seed exampleSimulation) 0
      = Inr (k, h\<lparr> timeframe_first := timeframe_first h + 60000,
                    hs_timeframe_last := hs_timeframe_last h + 60000 \<rparr>)"
    using id by (simp add: laterClock_def)
  from single_hotspot_run [of exampleRuntime laterClock exampleUuids exampleSimulation, OF this]
  show "laterRun = exampleSimulation
      \<lparr> hotspots := [(k, h\<lparr> timeframe_first := timeframe_first h + 60000,
                              hs_timeframe_last := hs_timeframe_last h + 60000 \<rparr>)] \<rparr>"
    by (simp add: laterRun_def stateOf_def)
qed

text \<open>
  Equality in every field fails: with the same seed and count, the run with other UUIDs
  and the run a minute later give hotspot sets that differ from the first one.
\<close>

theorem hotspots_differ_counterexample:
  "hotspots generatedRun \<noteq> hotspots otherRun \<and> hotspots generatedRun \<noteq> hotspots laterRun"
proof -
  obtain k h where gen: "generateHotspot exampleRuntime (exampleClock 0) (exampleUuids 0)
        (seed exampleSimulation) 0 = Inr (k, h)"
    and run: "generatedRun = exampleSimulation\<lparr> hotspots := [(k, h)] \<rparr>"
    using generatedRun_hotspots by blast
  have id: "hs_id (hs_metadata h) = exampleUuids 0"
    using generateHotspot_fields [OF gen] by simp
  have "h \<noteq> h\<lparr> hs_metadata := (hs_metadata h)\<lparr> hs_id := otherUuids 0 \<rparr> \<rparr>"
  proof
    assume "h = h\<lparr> hs_metadata := (hs_metadata h)\<lparr> hs_id := otherUuids 0 \<rparr> \<rparr>"
    then have "hs_id (hs_metadata h)
        = hs_id (hs_metadata (h\<lparr> hs_metadata := (hs_metadata h)\<lparr> hs_id := otherUuids 0 \<rparr> \<rparr>))"
      by simp
    then show False
      by (simp add: id exampleUuids_0 otherUuids_0)
  qed
  moreover have "h \<noteq> h\<lparr> timeframe_first := timeframe_first h + 60000,
      hs_timeframe_last := hs_timeframe_last h + 60000 \<rparr>"
  proof
    assume "h = h\<lparr> timeframe_first := timeframe_first h + 60000,
      hs_timeframe_last := hs_timeframe_last h + 60000 \<rparr>"
    then have "hs_timeframe_last h
        = hs_timeframe_last (h\<lparr> timeframe_first := timeframe_first h + 60000,
            hs_timeframe_last := hs_timeframe_last h + 60000 \<rparr>)"
      by simp
    then show False
      by simp
  qed
  ultimately show ?thesis
    by (simp add: run otherRun_hotspots [OF gen])
qed








text \<open>
  Claim C7, as amended. For a bounding box that is missing or not of length four,
  \<open>getSnapshotInBbox\<close> and \<open>getHotspotsInBbox\<close> fail with the error, whatever the stores
  hold. A box of four values with \<open>NaN\<close> among them is not rejected by the two functions:
  the scan runs and selects nothing.
\<close>

theorem malformed_bbox:
  "(bbox = None \<or> (\<exists>b. bbox = Some b \<and> length b \<noteq> 4)
      \<longrightarrow> getSnapshotInBbox rt bbox s = Inl InvalidBoundingBox
          \<and> getHotspotsInBbox bbox s = Inl InvalidBoundingBox)
   \<and> (\<forall>b. bbox = Some b \<and> length b = 4 \<and> NaN \<in> set b
      \<longrightarrow> getSnapshotInBbox rt bbox s = Inr [] \<and> getHotspotsInBbox bbox s = Inr [])"
  by (auto simp: getSnapshotInBbox_def getHotspotsInBbox_def snapshotScan_NaN hotspotScan_NaN)

theorem malformed_bbox_witness:
  "getSnapshotInBbox exampleRuntime (Some [Num 13, Num 49]) rangeRun = Inl InvalidBoundingBox
   \<and> getHotspotsInBbox (Some [Num 13, Num 49]) rangeRun = Inl InvalidBoundingBox
   \<and> getSnapshotInBbox exampleRuntime None rangeRun = Inl InvalidBoundingBox
   \<and> getHotspotsInBbox None rangeRun = Inl InvalidBoundingBox
   \<and> getSnapshotInBbox exampleRuntime (Some nanBox) rangeRun = Inr []
   \<and> getHotspotsInBbox (Some nanBox) rangeRun = Inr []"
  using malformed_bbox [of "Some [Num 13, Num 49]" exampleRuntime rangeRun]
    malformed_bbox [of None exampleRuntime rangeRun]
    malformed_bbox [of "Some nanBox" exampleRuntime rangeRun]
  by (simp add: nanBox_def)

text \<open>
  For a box of four values of which the first is not numeric, no error is raised: both
  functions return an empty result, over stores that hold a cell and a hotspot.
\<close>

theorem nan_bbox_counterexample:
  "getSnapshotInBbox exampleRuntime (Some nanBox) rangeRun = Inr []
   \<and> getHotspotsInBbox (Some nanBox) rangeRun = Inr []
   \<and> length (snapshot rangeRun) = 1 \<and> length (hotspots rangeRun) = 1"
proof -
  obtain k h c where run: "rangeRun = exampleSimulation
      \<lparr> hotspots := [(k, h)], snapshot := [(''8928308280fffff'', c)], rawAgg := [] \<rparr>"
    using rangeRun_state by blast
  have "length (snapshot rangeRun) = 1" and "length (hotspots rangeRun) = 1"
    by (simp_all add: run)
  moreover have "length nanBox = 4" and "NaN \<in> set nanBox"
    by (simp_all add: nanBox_def)
  ultimately show ?thesis
    by (simp add: getSnapshotInBbox_def getHotspotsInBbox_def snapshotScan_NaN hotspotScan_NaN)
qed

text \<open>
  Claim C8. For a bounding box of four numbers, a cell of the snapshot whose
  representative coordinate lies within the bounds, the bounds included, is in the
  result of \<open>getSnapshotInBbox\<close>. The example has \<open>lat = maxLat\<close>.
\<close>

theorem bbox_inclusive:
  assumes "distinct (map fst (snapshot s))" and "map_of (snapshot s) k = Some cell"
    and "cellToLatLng rt k = (lat, lng)"
    and "minLat \<le> lat" and "lat \<le> maxLat" and "minLng \<le> lng" and "lng \<le> maxLng"
  shows "\<exists>out. getSnapshotInBbox rt (Some [Num minLng, Num minLat, Num maxLng, Num maxLat]) s
            = Inr out \<and> map_of out k = Some cell"
proof -
  have "inBbox [Num minLng, Num minLat, Num maxLng, Num maxLat]
      (fst (cellToLatLng rt k)) (snd (cellToLatLng rt k))"
    using assms(3-7) by (simp add: inBbox_def)
  from snapshotScan_lookup [OF assms(1,2) this] show ?thesis
    by (simp add: getSnapshotInBbox_def)
qed

theorem bbox_inclusive_witness:
  "distinct (map fst (snapshot bboxRun))
   \<and> cellToLatLng exampleRuntime ''8928308280fffff'' = (50, 14)
   \<and> (49 :: rat) \<le> 50 \<and> (50 :: rat) \<le> 50 \<and> (13 :: rat) \<le> 14 \<and> (14 :: rat) \<le> 15
   \<and> (\<exists>cell out. map_of (snapshot bboxRun) ''8928308280fffff'' = Some cell
        \<and> getSnapshotInBbox exampleRuntime (Some boundaryBox) bboxRun = Inr out
        \<and> map_of out ''8928308280fffff'' = Some cell)"
proof -
  obtain c0 where run: "bboxRun = exampleSimulation
      \<lparr> snapshot := [(''8928308280fffff'', c0)], rawAgg := [] \<rparr>"
    using bboxRun_state by blast
  have keys: "map fst (snapshot bboxRun) = [''8928308280fffff'']"
    by (simp add: run)
  then have d: "distinct (map fst (snapshot bboxRun))"
    by simp
  from keys obtain cell where c: "map_of (snapshot bboxRun) ''8928308280fffff'' = Some cell"
    by (cases "snapshot bboxRun") auto
  have ll: "cellToLatLng exampleRuntime ''8928308280fffff'' = (50, 14)"
    by (simp add: exampleRuntime_def)
  from bbox_inclusive [OF d c ll, of 49 50 13 15] d c ll show ?thesis
    by (auto simp: boundaryBox_def)
qed

text \<open>
  Claim C10. For an id that the snapshot does not hold, \<open>getCell\<close> returns \<open>undefined\<close>
  whatever its options, and the engine is as before: no statistics are computed or
  cached, and the generator is not advanced.
\<close>

theorem getCell_absent:
  assumes "map_of (snapshot s) h3Index = None"
  shows "getCell now h3Index opts s = (None, s)"
  using assms by (simp add: getCell_def)

theorem getCell_absent_witness:
  "map_of (snapshot bboxRun) ''8928308287fffff'' = None
   \<and> getCell 1700000000000 ''8928308287fffff'' withStatistics bboxRun = (None, bboxRun)"
proof -
  obtain c0 where run: "bboxRun = exampleSimulation
      \<lparr> snapshot := [(''8928308280fffff'', c0)], rawAgg := [] \<rparr>"
    using bboxRun_state by blast
  have "map fst (snapshot bboxRun) = [''8928308280fffff'']"
    by (simp add: run)
  then have "map_of (snapshot bboxRun) ''8928308287fffff'' = None"
    by (simp add: map_of_eq_None_iff flip: set_map)
  with getCell_absent [OF this] show ?thesis
    by simp
qed

end
